theory Spec2Isabelle
  imports Complex_Main
begin

section \<open>Data model\<close>

text \<open>
  The preview engine of \<^verbatim>\<open>dwl/src/simulation/PreviewLocomotion.cpp\<close> works on
  \<^verbatim>\<open>double\<close> scalars and Eigen vectors. Scalars are modelled as \<^typ>\<open>real\<close>
  (rounding is outside this model, except in the quotient whose floor is the number of
  samples, see \<open>double_div\<close>), Eigen's fixed-size vectors as tuples.
\<close>

type_synonym Vector3d = "real \<times> real \<times> real"
type_synonym Vector2d = "real \<times> real"

fun vadd :: "Vector3d \<Rightarrow> Vector3d \<Rightarrow> Vector3d" where
  "vadd (ax, ay, az) (bx, by, bz) = (ax + bx, ay + by, az + bz)"

fun vsub :: "Vector3d \<Rightarrow> Vector3d \<Rightarrow> Vector3d" where
  "vsub (ax, ay, az) (bx, by, bz) = (ax - bx, ay - by, az - bz)"

fun vscale :: "real \<Rightarrow> Vector3d \<Rightarrow> Vector3d" where
  "vscale c (ax, ay, az) = (c * ax, c * ay, c * az)"

fun vneg :: "Vector3d \<Rightarrow> Vector3d" where
  "vneg (ax, ay, az) = (- ax, - ay, - az)"

definition vzero :: Vector3d where
  "vzero = (0, 0, 0)"

fun Z :: "Vector3d \<Rightarrow> real" where
  "Z (ax, ay, az) = az"

fun setZ :: "Vector3d \<Rightarrow> real \<Rightarrow> Vector3d" where
  "setZ (ax, ay, az) z = (ax, ay, z)"

fun head2 :: "Vector3d \<Rightarrow> Vector2d" where
  "head2 (ax, ay, az) = (ax, ay)"

text \<open>
  Modelled from the spec: \<^verbatim>\<open>ReducedBodyState\<close> is declared in a header that is not
  part of the sources at hand. Its fields are the ones section 3 of the specification
  lists and the code reads and writes; a \<^verbatim>\<open>std::map\<close> keyed by foot name is a
  partial map.
\<close>

record ReducedBodyState =
  time :: real
  com_pos :: Vector3d
  com_vel :: Vector3d
  com_acc :: Vector3d
  angular_pos :: Vector3d
  angular_vel :: Vector3d
  angular_acc :: Vector3d
  cop :: Vector3d
  support_region :: "string \<rightharpoonup> Vector3d"
  foot_pos :: "string \<rightharpoonup> Vector3d"
  foot_vel :: "string \<rightharpoonup> Vector3d"
  foot_acc :: "string \<rightharpoonup> Vector3d"

text \<open>
  Modelled from the spec: \<^verbatim>\<open>getRPY_W\<close> (absent header) returns the roll-pitch-yaw
  orientation, the field \<open>angular_pos\<close>.
\<close>

definition getRPY_W :: "ReducedBodyState \<Rightarrow> Vector3d" where
  "getRPY_W s = angular_pos s"

type_synonym ReducedBodyTrajectory = "ReducedBodyState list"

datatype TypeOfPhases = STANCE | FLIGHT

text \<open>
  Modelled from the spec: \<^verbatim>\<open>PreviewPhase\<close>, \<^verbatim>\<open>PreviewParams\<close>,
  \<^verbatim>\<open>PreviewControl\<close> and \<^verbatim>\<open>SwingParams\<close> (absent header). A phase carries its
  type, the vector \<open>feet\<close> of feet given a shift, the set of swinging feet and the map
  from a foot to its planar shift.
\<close>

record PreviewPhase =
  type :: TypeOfPhases
  feet :: "string list"
  swing_feet :: "string set"
  feet_shift :: "string \<rightharpoonup> Vector2d"

text \<open>
  Modelled from the spec: the accessors of \<^verbatim>\<open>PreviewPhase\<close> (absent header). A foot
  swings when it is in the set of swinging feet; the shift of a foot that was given none
  is taken to be zero.
\<close>

definition isSwingFoot :: "PreviewPhase \<Rightarrow> string \<Rightarrow> bool" where
  "isSwingFoot p name = (name \<in> swing_feet p)"

definition setSwingFoot :: "PreviewPhase \<Rightarrow> string \<Rightarrow> PreviewPhase" where
  "setSwingFoot p name = p\<lparr>swing_feet := insert name (swing_feet p)\<rparr>"

definition getFootShift :: "PreviewPhase \<Rightarrow> string \<Rightarrow> Vector2d" where
  "getFootShift p name = (case feet_shift p name of Some v \<Rightarrow> v | None \<Rightarrow> (0, 0))"

definition setFootShift :: "PreviewPhase \<Rightarrow> string \<Rightarrow> Vector2d \<Rightarrow> PreviewPhase" where
  "setFootShift p name v = p\<lparr>feet_shift := (feet_shift p)(name \<mapsto> v)\<rparr>"

definition setTypeOfPhase :: "PreviewPhase \<Rightarrow> TypeOfPhases \<Rightarrow> PreviewPhase" where
  "setTypeOfPhase p t = p\<lparr>type := t\<rparr>"

record PreviewParams =
  duration :: real
  cop_shift :: Vector3d
  head_acc :: real
  phase :: PreviewPhase

record PreviewControl =
  params :: "PreviewParams list"

record SwingParams =
  swing_duration :: real
  swing_feet_shift :: "string \<rightharpoonup> Vector3d"

type_synonym CartTableControlParams = "real \<times> Vector3d"
type_synonym StepParameters = "real \<times> real"

text \<open>
  The terrain map \<^verbatim>\<open>terrain_\<close> is a member object whose class is not among the
  sources; the engine only asks it whether height data is registered and for the height
  at a planar position, so it is a record of these two answers.
\<close>

record TerrainMap =
  isTerrainInformation :: bool
  getTerrainHeight :: "Vector2d \<Rightarrow> real"

text \<open>
  The members of \<^verbatim>\<open>PreviewLocomotion\<close> (the trailing underscore of the C++ names
  is dropped). \<open>'ct\<close> is the state of the cart-table model (its cached closed-form
  coefficients), \<open>'sg\<close> the state of one foot spline generator.
\<close>

record ('ct, 'sg) PreviewLocomotion =
  robot_model :: bool
  sample_time :: real
  gravity :: real
  mass :: real
  num_feet :: nat
  feet_names :: "string list"
  step_height :: real
  force_threshold :: real
  stance_posture :: "string \<rightharpoonup> Vector3d"
  actual_state :: ReducedBodyState
  phase_state :: ReducedBodyState
  swing_params :: SwingParams
  feet_spline_generator :: "string \<rightharpoonup> 'sg"
  cart_table :: 'ct
  terrain :: TerrainMap

text \<open>
  The collaborators the engine calls and whose code is not among the sources are
  parameters of the model: the cart-table model, the foot spline generator, the frame
  transformations and the default constructors of a reduced state and of the parameters
  of a phase. Following section 4.1
  of the specification, \<open>computeResponse\<close> reads the cached coefficients and writes the
  state it is given; \<open>initResponse\<close> and \<open>computeSystemEnergy\<close> may change the cache.
\<close>

record ('ct, 'sg) Collaborators =
  initResponse :: "'ct \<Rightarrow> ReducedBodyState \<Rightarrow> CartTableControlParams \<Rightarrow> 'ct"
  computeResponse :: "'ct \<Rightarrow> ReducedBodyState \<Rightarrow> real \<Rightarrow> ReducedBodyState"
  computeSystemEnergy ::
    "'ct \<Rightarrow> ReducedBodyState \<Rightarrow> CartTableControlParams \<Rightarrow> Vector3d \<times> 'ct"
  getPendulumHeight :: "'ct \<Rightarrow> real"
  default_generator :: 'sg
  setParameters :: "'sg \<Rightarrow> real \<Rightarrow> Vector3d \<Rightarrow> Vector3d \<Rightarrow> StepParameters \<Rightarrow> 'sg"
  generateTrajectory :: "'sg \<Rightarrow> real \<Rightarrow> Vector3d \<times> Vector3d \<times> Vector3d"
  fromBaseToWorldFrame :: "Vector3d \<Rightarrow> Vector3d \<Rightarrow> Vector3d"
  fromWorldToBaseFrame :: "Vector3d \<Rightarrow> Vector3d \<Rightarrow> Vector3d"
  default_state :: ReducedBodyState
  default_params :: PreviewParams

section \<open>Undefined behaviour as errors\<close>

text \<open>
  Every place where the C++ would read or write outside a vector, dereference the end
  iterator of a map or convert an unrepresentable \<^verbatim>\<open>double\<close> to
  \<^verbatim>\<open>unsigned int\<close> is a branch of the model that returns an error.
\<close>

datatype error =
    IndexOutOfBounds nat nat
  | BackOfEmptyTrajectory
  | BackOfEmptyParams
  | MissingStancePosture string
  | SampleCountOutOfRange
  | LengthError

definition write_at :: "'a list \<Rightarrow> nat \<Rightarrow> 'a \<Rightarrow> error + 'a list" where
  "write_at xs i v = (if i < length xs then Inr (xs[i := v]) else Inl (IndexOutOfBounds i (length xs)))"

definition read_at :: "'a list \<Rightarrow> nat \<Rightarrow> error + 'a" where
  "read_at xs i = (if i < length xs then Inr (xs ! i) else Inl (IndexOutOfBounds i (length xs)))"

definition vector_back :: "error \<Rightarrow> 'a list \<Rightarrow> error + 'a" where
  "vector_back e xs = (if xs = [] then Inl e else Inr (last xs))"

definition resize :: "nat \<Rightarrow> 'a \<Rightarrow> 'a list \<Rightarrow> 'a list" where
  "resize n d xs = take n xs @ replicate (n - length xs) d"

text \<open>
  A counted loop \<^verbatim>\<open>for (k = k0; k < n; k++)\<close> whose body may hit undefined behaviour:
  the loop stops at the first error.
\<close>

function for_loop :: "nat \<Rightarrow> nat \<Rightarrow> (nat \<Rightarrow> 's \<Rightarrow> 'e + 's) \<Rightarrow> 's \<Rightarrow> 'e + 's" where
  "for_loop k n body s =
     (if k < n then (case body k s of Inl e \<Rightarrow> Inl e | Inr s' \<Rightarrow> for_loop (Suc k) n body s')
      else Inr s)"
  by pat_completeness auto
termination
  by (relation "measure (\<lambda>(k, n, body, s). n - k)") auto

declare for_loop.simps [simp del]

text \<open>
  \<^verbatim>\<open>params.duration / sample_time_\<close> is a division of doubles: its result is the
  exact quotient rounded to the nearest double (IEEE 754 binary64, ties to even), and
  the rounding can move the quotient across an integer (0.3 / 0.1 is just below 3). So
  this one operation is modelled with its rounding. \<open>binary_exponent\<close> searches, from
  0 and within the exponent range of a double, the exponent \<open>e\<close> with
  \<open>2 ^ e \<le> a < 2 ^ (e + 1)\<close> (not below -1022, where the subnormal numbers start);
  the spacing of the doubles at \<open>a\<close> is then \<open>2 ^ (e - 52)\<close>. A quotient too large
  for a double is infinite in the code; here it stays finite and large, and the range
  check of the conversion below rejects it all the same.
\<close>

definition round_half_even :: "real \<Rightarrow> int" where
  "round_half_even m =
     (let f = \<lfloor>m\<rfloor>; r = m - of_int f
      in if r < 1 / 2 then f else if 1 / 2 < r then f + 1 else if even f then f else f + 1)"

fun binary_exponent :: "nat \<Rightarrow> int \<Rightarrow> real \<Rightarrow> int" where
  "binary_exponent 0 e a = e"
| "binary_exponent (Suc n) e a =
     (if a < 2 powi e then (if e \<le> - 1022 then e else binary_exponent n (e - 1) a)
      else if 2 powi (e + 1) \<le> a then binary_exponent n (e + 1) a
      else e)"

definition round_to_double :: "real \<Rightarrow> real" where
  "round_to_double x =
     (let a = \<bar>x\<bar>; e = binary_exponent 2100 0 a; u = 2 powi (e - 52)
      in sgn x * (of_int (round_half_even (a / u)) * u))"

definition double_div :: "real \<Rightarrow> real \<Rightarrow> real" where
  "double_div x y = round_to_double (x / y)"

text \<open>
  \<^verbatim>\<open>unsigned int num_samples = floor(params.duration / sample_time_)\<close>: the
  conversion is defined only when the floor lies in the range of a 32-bit unsigned
  integer; a zero sample time gives an infinite or undefined quotient.
\<close>

definition sample_count :: "real \<Rightarrow> real \<Rightarrow> error + nat" where
  "sample_count d st =
     (if st = 0 then Inl SampleCountOutOfRange
      else let q = \<lfloor>double_div d st\<rfloor>
           in if 0 \<le> q \<and> q < 2 ^ 32 then Inr (nat q) else Inl SampleCountOutOfRange)"

text \<open>\<^verbatim>\<open>num_samples + 1\<close> in 32-bit unsigned arithmetic.\<close>

definition succ_u32 :: "nat \<Rightarrow> nat" where
  "succ_u32 n = (n + 1) mod 2 ^ 32"

section \<open>Swing generation\<close>

text \<open>
  The foothold of a foot in the world frame, as both \<^verbatim>\<open>multiPhasePreview\<close> loops
  compute it (lines 230-262 and 294-322 are the same computation): the CoM position plus
  the rotated nominal stance offset and commanded shift, with z from the terrain map
  or, on flat terrain, from the pendulum height and the drift of the CoM height.
\<close>

definition foothold_target ::
  "('ct, 'sg) Collaborators \<Rightarrow> ('ct, 'sg) PreviewLocomotion \<Rightarrow> ReducedBodyState \<Rightarrow>
   PreviewPhase \<Rightarrow> string \<Rightarrow> Vector3d \<Rightarrow> Vector3d" where
  "foothold_target ops eng st ph name stance =
     (let footshift_2d = getFootShift ph name;
          footshift = (fst footshift_2d, snd footshift_2d, 0);
          foothold = vadd (com_pos st)
                       (fromBaseToWorldFrame ops (vadd stance footshift) (getRPY_W st))
      in if isTerrainInformation (terrain eng)
         then setZ foothold (getTerrainHeight (terrain eng) (head2 foothold))
         else let comz_shift = Z (com_pos st) - Z (com_pos (actual_state eng));
                  footshift_z = - (getPendulumHeight ops (cart_table eng) + Z stance)
              in setZ foothold (footshift_z - comz_shift))"

text \<open>
  The first loop of \<^verbatim>\<open>initSwing\<close>, over the vector \<^verbatim>\<open>params.phase.feet\<close>: the
  3d swing shift of every listed foot.
\<close>

fun swing_shifts ::
  "('ct, 'sg) Collaborators \<Rightarrow> ('ct, 'sg) PreviewLocomotion \<Rightarrow> ReducedBodyState \<Rightarrow>
   PreviewPhase \<Rightarrow> string list \<Rightarrow> (string \<rightharpoonup> Vector3d) \<Rightarrow> error + (string \<rightharpoonup> Vector3d)" where
  "swing_shifts ops eng terminal_state ph [] swing_shift = Inr swing_shift"
| "swing_shifts ops eng terminal_state ph (name # rest) swing_shift =
     (case stance_posture eng name of
        None \<Rightarrow> Inl (MissingStancePosture name)
      | Some stance \<Rightarrow>
          let footshift_2d = getFootShift ph name;
              footshift = (fst footshift_2d, snd footshift_2d, 0);
              foothold = vadd (com_pos terminal_state)
                           (fromBaseToWorldFrame ops (vadd stance footshift)
                              (getRPY_W terminal_state));
              footshift' =
                (if isTerrainInformation (terrain eng)
                 then setZ footshift
                        (getTerrainHeight (terrain eng) (head2 foothold)
                           - (Z (com_pos terminal_state) + Z stance))
                 else let comz_shift = Z (com_pos terminal_state) - Z (com_pos (actual_state eng));
                          footshift_z = - (getPendulumHeight ops (cart_table eng) + Z stance)
                      in setZ footshift (footshift_z - comz_shift))
          in swing_shifts ops eng terminal_state ph rest (swing_shift(name \<mapsto> footshift')))"

text \<open>
  \<^verbatim>\<open>initSwing\<close>. Its second loop runs over the entries of the map
  \<^verbatim>\<open>state.foot_pos\<close>; each iteration touches only the generator of its own foot, so
  the loop is the pointwise definition of the new generator map. A foot with a swing
  shift passed the stance lookup of the first loop.
\<close>

definition initSwing ::
  "('ct, 'sg) Collaborators \<Rightarrow> ('ct, 'sg) PreviewLocomotion \<Rightarrow> ReducedBodyState \<Rightarrow>
   PreviewParams \<Rightarrow> error + ('ct, 'sg) PreviewLocomotion" where
  "initSwing ops eng state ps =
     (let eng1 = eng\<lparr>phase_state := state\<rparr>;
          terminal_state = computeResponse ops (cart_table eng1) (default_state ops)
                             (time state + duration ps)
      in case swing_shifts ops eng1 terminal_state (phase ps) (feet (phase ps)) Map.empty of
           Inl e \<Rightarrow> Inl e
         | Inr swing_shift \<Rightarrow>
             Inr (eng1\<lparr>swing_params := \<lparr>swing_duration = duration ps,
                                        swing_feet_shift = swing_shift\<rparr>,
                       feet_spline_generator :=
                         (\<lambda>name. case foot_pos state name of
                              None \<Rightarrow> None
                            | Some actual_pos \<Rightarrow>
                                (case swing_shift name of
                                   None \<Rightarrow> None
                                 | Some footshift \<Rightarrow>
                                     (case stance_posture eng1 name of
                                        None \<Rightarrow> None
                                      | Some stance_pos \<Rightarrow>
                                          Some (setParameters ops (default_generator ops)
                                                  (time state) actual_pos
                                                  (vadd stance_pos footshift)
                                                  (duration ps, step_height eng1)))))\<rparr>))"

text \<open>
  \<^verbatim>\<open>generateSwing\<close>: a loop over the entries of \<^verbatim>\<open>phase_state_.foot_pos\<close>, again
  pointwise. \<^verbatim>\<open>feet_spline_generator_[name]\<close> inserts a default generator when the
  foot has none.
\<close>

definition generateSwing ::
  "('ct, 'sg) Collaborators \<Rightarrow> ('ct, 'sg) PreviewLocomotion \<Rightarrow> ReducedBodyState \<Rightarrow> real \<Rightarrow>
   ('ct, 'sg) PreviewLocomotion \<times> ReducedBodyState" where
  "generateSwing ops eng state t =
     (let shifts = swing_feet_shift (swing_params eng);
          pstate = phase_state eng;
          gen = (\<lambda>name. case feet_spline_generator eng name of
                           None \<Rightarrow> default_generator ops | Some g \<Rightarrow> g);
          com_disp = vsub (com_pos state) (com_pos pstate)
      in (eng\<lparr>feet_spline_generator :=
                (\<lambda>name. case foot_pos pstate name of
                     None \<Rightarrow> feet_spline_generator eng name
                   | Some actual_pos \<Rightarrow>
                       (case shifts name of
                          None \<Rightarrow> feet_spline_generator eng name
                        | Some sh \<Rightarrow> Some (gen name)))\<rparr>,
          state\<lparr>foot_pos :=
                  (\<lambda>name. case foot_pos pstate name of
                       None \<Rightarrow> foot_pos state name
                     | Some actual_pos \<Rightarrow>
                         (case shifts name of
                            Some sh \<Rightarrow> Some (fst (generateTrajectory ops (gen name) t))
                          | None \<Rightarrow> Some (vsub actual_pos
                                             (fromWorldToBaseFrame ops com_disp (getRPY_W state))))),
                foot_vel :=
                  (\<lambda>name. case foot_pos pstate name of
                       None \<Rightarrow> foot_vel state name
                     | Some actual_pos \<Rightarrow>
                         (case shifts name of
                            Some sh \<Rightarrow> Some (fst (snd (generateTrajectory ops (gen name) t)))
                          | None \<Rightarrow> Some (fromWorldToBaseFrame ops (vneg (com_vel state))
                                             (getRPY_W state)))),
                foot_acc :=
                  (\<lambda>name. case foot_pos pstate name of
                       None \<Rightarrow> foot_acc state name
                     | Some actual_pos \<Rightarrow>
                         (case shifts name of
                            Some sh \<Rightarrow> Some (snd (snd (generateTrajectory ops (gen name) t)))
                          | None \<Rightarrow> Some (fromWorldToBaseFrame ops (vneg (com_acc state))
                                             (getRPY_W state))))\<rparr>))"

section \<open>Previews of one phase\<close>

text \<open>The time offset of sample \<open>k\<close>: the last sample is pinned to the duration.\<close>

definition sample_offset :: "real \<Rightarrow> real \<Rightarrow> nat \<Rightarrow> nat \<Rightarrow> real" where
  "sample_offset st d num_samples k =
     (if k = num_samples then d else st * real (k + 1))"

text \<open>
  The body of the sampling loop of \<^verbatim>\<open>stancePreview\<close>. \<^verbatim>\<open>current_state\<close> is
  declared before the loop and carried from one sample to the next.
\<close>

definition stance_sample ::
  "('ct, 'sg) Collaborators \<Rightarrow> ReducedBodyState \<Rightarrow> PreviewParams \<Rightarrow> bool \<Rightarrow> nat \<Rightarrow> nat \<Rightarrow> nat \<Rightarrow>
   ('ct, 'sg) PreviewLocomotion \<times> ReducedBodyTrajectory \<times> ReducedBodyState \<Rightarrow>
   error + ('ct, 'sg) PreviewLocomotion \<times> ReducedBodyTrajectory \<times> ReducedBodyState" where
  "stance_sample ops state ps full idx num_samples k acc =
     (case acc of (eng, trajectory, current_state) \<Rightarrow>
        let t = sample_offset (sample_time eng) (duration ps) num_samples k;
            cs1 = current_state\<lparr>time := time state + t\<rparr>;
            cs2 = computeResponse ops (cart_table eng) cs1 (time cs1)
        in case (if full then generateSwing ops eng cs2 (time cs2) else (eng, cs2)) of
             (eng', cs3) \<Rightarrow>
               (case write_at trajectory (k - idx) cs3 of
                  Inl e \<Rightarrow> Inl e
                | Inr trajectory' \<Rightarrow> Inr (eng', trajectory', cs3)))"

definition stancePreview ::
  "('ct, 'sg) Collaborators \<Rightarrow> ('ct, 'sg) PreviewLocomotion \<Rightarrow> ReducedBodyTrajectory \<Rightarrow>
   ReducedBodyState \<Rightarrow> PreviewParams \<Rightarrow> bool \<Rightarrow>
   error + ('ct, 'sg) PreviewLocomotion \<times> ReducedBodyTrajectory" where
  "stancePreview ops eng trajectory state ps full =
     (if full \<and> duration ps < sample_time eng then Inr (eng, trajectory)
      else
        let model_params = (duration ps, cop_shift ps);
            eng1 = eng\<lparr>cart_table := initResponse ops (cart_table eng) state model_params\<rparr>
        in case sample_count (duration ps) (sample_time eng1) of
             Inl e \<Rightarrow> Inl e
           | Inr num_samples \<Rightarrow>
               (case (if full
                      then (case initSwing ops eng1 state ps of
                              Inl e \<Rightarrow> Inl e
                            | Inr eng2 \<Rightarrow>
                                Inr (0, resize (succ_u32 num_samples) (default_state ops) trajectory,
                                     eng2))
                      else Inr (num_samples, resize 1 (default_state ops) trajectory, eng1)) of
                  Inl e \<Rightarrow> Inl e
                | Inr (idx, trajectory1, eng3) \<Rightarrow>
                    (case for_loop idx (succ_u32 num_samples)
                            (stance_sample ops state ps full idx num_samples)
                            (eng3, trajectory1, state) of
                       Inl e \<Rightarrow> Inl e
                     | Inr (eng4, trajectory2, current_state) \<Rightarrow> Inr (eng4, trajectory2))))"

text \<open>
  The body of the sampling loop of \<^verbatim>\<open>flightPreview\<close>. Here \<^verbatim>\<open>current_state\<close> is
  default-constructed in every iteration.
\<close>

definition flight_sample ::
  "('ct, 'sg) Collaborators \<Rightarrow> ReducedBodyState \<Rightarrow> PreviewParams \<Rightarrow> bool \<Rightarrow> nat \<Rightarrow> nat \<Rightarrow> nat \<Rightarrow>
   ('ct, 'sg) PreviewLocomotion \<times> ReducedBodyTrajectory \<Rightarrow>
   error + ('ct, 'sg) PreviewLocomotion \<times> ReducedBodyTrajectory" where
  "flight_sample ops state ps full idx num_samples k acc =
     (case acc of (eng, trajectory) \<Rightarrow>
        let gravity_vec = (0, 0, - gravity eng);
            t = sample_offset (sample_time eng) (duration ps) num_samples k;
            cs0 = default_state ops;
            cs1 = cs0\<lparr>time := time state + t,
                     com_pos := vadd (vadd (com_pos state) (vscale t (com_vel state)))
                                  (vscale t (vscale t (vscale 0.5 gravity_vec))),
                     com_vel := vadd (com_vel state) (vscale t gravity_vec),
                     com_acc := gravity_vec\<rparr>
        in case (if full then generateSwing ops eng cs1 (time cs1) else (eng, cs1)) of
             (eng', cs2) \<Rightarrow>
               (case write_at trajectory (k - idx) cs2 of
                  Inl e \<Rightarrow> Inl e
                | Inr trajectory' \<Rightarrow> Inr (eng', trajectory')))"

definition flightPreview ::
  "('ct, 'sg) Collaborators \<Rightarrow> ('ct, 'sg) PreviewLocomotion \<Rightarrow> ReducedBodyTrajectory \<Rightarrow>
   ReducedBodyState \<Rightarrow> PreviewParams \<Rightarrow> bool \<Rightarrow>
   error + ('ct, 'sg) PreviewLocomotion \<times> ReducedBodyTrajectory" where
  "flightPreview ops eng trajectory state ps full =
     (if full \<and> duration ps < sample_time eng then Inr (eng, trajectory)
      else
        case sample_count (duration ps) (sample_time eng) of
          Inl e \<Rightarrow> Inl e
        | Inr num_samples \<Rightarrow>
            (case (if full
                   then (case initSwing ops eng state ps of
                           Inl e \<Rightarrow> Inl e
                         | Inr eng2 \<Rightarrow>
                             Inr (0, resize num_samples (default_state ops) trajectory, eng2))
                   else Inr (num_samples, resize 1 (default_state ops) trajectory, eng)) of
               Inl e \<Rightarrow> Inl e
             | Inr (idx, trajectory1, eng3) \<Rightarrow>
                 for_loop idx (succ_u32 num_samples)
                   (flight_sample ops state ps full idx num_samples)
                   (eng3, trajectory1)))"

section \<open>The multi-phase preview\<close>

definition not_initialized :: string where
  "not_initialized = ''Error: the robot model was not initialized''"

text \<open>
  Lines 228-265 and 292-325: a foot that swings in the phase \<open>ctrl\<close>, when that phase
  lasts longer than the sample time, gets its foothold written into the support region.
\<close>

definition commit_foothold ::
  "('ct, 'sg) Collaborators \<Rightarrow> ('ct, 'sg) PreviewLocomotion \<Rightarrow> PreviewParams \<Rightarrow> string \<Rightarrow>
   ReducedBodyState \<Rightarrow> error + ReducedBodyState" where
  "commit_foothold ops eng ctrl name actual =
     (if isSwingFoot (phase ctrl) name \<and> duration ctrl > sample_time eng
      then (case stance_posture eng name of
              None \<Rightarrow> Inl (MissingStancePosture name)
            | Some stance \<Rightarrow>
                Inr (actual\<lparr>support_region :=
                       (support_region actual)
                         (name \<mapsto> foothold_target ops eng actual (phase ctrl) name stance)\<rparr>))
      else Inr actual)"

text \<open>The body of the loop over the feet at lines 220-266, for phase \<open>k > 0\<close>.\<close>

definition update_support_foot ::
  "('ct, 'sg) Collaborators \<Rightarrow> ('ct, 'sg) PreviewLocomotion \<Rightarrow> PreviewControl \<Rightarrow> nat \<Rightarrow> nat \<Rightarrow>
   ReducedBodyState \<Rightarrow> error + ReducedBodyState" where
  "update_support_foot ops eng control k f actual =
     (case read_at (feet_names eng) f of
        Inl e \<Rightarrow> Inl e
      | Inr name \<Rightarrow>
          let actual1 = (if isSwingFoot (phase (params control ! k)) name
                         then actual\<lparr>support_region := (support_region actual)(name := None)\<rparr>
                         else actual)
          in commit_foothold ops eng (params control ! (k - 1)) name actual1)"

text \<open>Lines 213-268: the state a phase starts from.\<close>

definition phase_start_state ::
  "('ct, 'sg) Collaborators \<Rightarrow> ('ct, 'sg) PreviewLocomotion \<Rightarrow> ReducedBodyState \<Rightarrow>
   PreviewControl \<Rightarrow> nat \<Rightarrow> ReducedBodyTrajectory \<Rightarrow> error + ReducedBodyState" where
  "phase_start_state ops eng state control k trajectory =
     (if k = 0 then Inr state
      else (case vector_back BackOfEmptyTrajectory trajectory of
              Inl e \<Rightarrow> Inl e
            | Inr actual \<Rightarrow>
                if duration (params control ! k) > sample_time eng
                then for_loop 0 (num_feet eng) (update_support_foot ops eng control k) actual
                else Inr actual))"

text \<open>The body of the loop over the phases, lines 206-283.\<close>

definition phase_iteration ::
  "('ct, 'sg) Collaborators \<Rightarrow> ReducedBodyState \<Rightarrow> PreviewControl \<Rightarrow> bool \<Rightarrow> nat \<Rightarrow>
   ('ct, 'sg) PreviewLocomotion \<times> ReducedBodyTrajectory \<Rightarrow>
   error + ('ct, 'sg) PreviewLocomotion \<times> ReducedBodyTrajectory" where
  "phase_iteration ops state control full k acc =
     (case acc of (eng, trajectory) \<Rightarrow>
        (let preview_params = params control ! k
         in (case phase_start_state ops eng state control k trajectory of
               Inl e \<Rightarrow> Inl e
             | Inr actual \<Rightarrow>
                 (case (if type (phase preview_params) = STANCE
                        then stancePreview ops eng [] actual preview_params full
                        else flightPreview ops eng [] actual preview_params full) of
                    Inl e \<Rightarrow> Inl e
                  | Inr (eng', phase_traj) \<Rightarrow>
                      (let trajectory1 = trajectory @ phase_traj
                       in Inr (eng', if length trajectory1 = 0 then trajectory1 @ [state]
                                     else trajectory1))))))"

text \<open>Lines 285-326: the state appended after the last phase.\<close>

definition trailing_state ::
  "('ct, 'sg) Collaborators \<Rightarrow> ('ct, 'sg) PreviewLocomotion \<Rightarrow> PreviewControl \<Rightarrow>
   ReducedBodyTrajectory \<Rightarrow> error + ReducedBodyState" where
  "trailing_state ops eng control trajectory =
     (case vector_back BackOfEmptyTrajectory trajectory of
        Inl e \<Rightarrow> Inl e
      | Inr actual \<Rightarrow>
          (case vector_back BackOfEmptyParams (params control) of
             Inl e \<Rightarrow> Inl e
           | Inr end_control \<Rightarrow>
               for_loop 0 (num_feet eng)
                 (\<lambda>f a. case read_at (feet_names eng) f of
                           Inl e \<Rightarrow> Inl e
                         | Inr name \<Rightarrow> commit_foothold ops eng end_control name a)
                 actual))"

text \<open>
  \<^verbatim>\<open>multiPhasePreview\<close>. The result holds the engine, the output argument
  \<^verbatim>\<open>trajectory\<close> and the lines printed.
\<close>

definition multiPhasePreview ::
  "('ct, 'sg) Collaborators \<Rightarrow> ('ct, 'sg) PreviewLocomotion \<Rightarrow> ReducedBodyTrajectory \<Rightarrow>
   ReducedBodyState \<Rightarrow> PreviewControl \<Rightarrow> bool \<Rightarrow>
   error + ('ct, 'sg) PreviewLocomotion \<times> ReducedBodyTrajectory \<times> string list" where
  "multiPhasePreview ops eng trajectory state control full =
     (if \<not> robot_model eng then Inr (eng, trajectory, [not_initialized])
      else
        let eng1 = eng\<lparr>actual_state := state\<rparr>
        in case for_loop 0 (length (params control)) (phase_iteration ops state control full)
                  (eng1, []) of
             Inl e \<Rightarrow> Inl e
           | Inr (eng2, trajectory1) \<Rightarrow>
               (case trailing_state ops eng2 control trajectory1 of
                  Inl e \<Rightarrow> Inl e
                | Inr actual \<Rightarrow> Inr (eng2, trajectory1 @ [actual], [])))"

section \<open>The multi-phase energy\<close>

text \<open>The body of the loop of \<^verbatim>\<open>multiPhaseEnergy\<close>, lines 349-370.\<close>

definition energy_iteration ::
  "('ct, 'sg) Collaborators \<Rightarrow> PreviewControl \<Rightarrow> nat \<Rightarrow> 'ct \<times> Vector3d \<times> ReducedBodyState \<Rightarrow>
   error + 'ct \<times> Vector3d \<times> ReducedBodyState" where
  "energy_iteration ops control k acc =
     (case acc of (ct, com_energy, actual) \<Rightarrow>
        let preview_params = params control ! k
        in case (case type (phase preview_params) of
                   STANCE \<Rightarrow>
                     (case computeSystemEnergy ops ct actual
                             (duration preview_params, cop_shift preview_params) of
                        (phase_energy, ct1) \<Rightarrow> (ct1, vadd com_energy phase_energy))
                 | FLIGHT \<Rightarrow> (ct, com_energy)) of
             (ct', com_energy') \<Rightarrow>
               Inr (ct', com_energy',
                    computeResponse ops ct' actual (time actual + duration preview_params)))"

definition energy_loop ::
  "('ct, 'sg) Collaborators \<Rightarrow> 'ct \<Rightarrow> ReducedBodyState \<Rightarrow> PreviewControl \<Rightarrow>
   error + 'ct \<times> Vector3d \<times> ReducedBodyState" where
  "energy_loop ops ct state control =
     for_loop 0 (length (params control)) (energy_iteration ops control) (ct, vzero, state)"

definition multiPhaseEnergy ::
  "('ct, 'sg) Collaborators \<Rightarrow> ('ct, 'sg) PreviewLocomotion \<Rightarrow> Vector3d \<Rightarrow>
   ReducedBodyState \<Rightarrow> PreviewControl \<Rightarrow>
   error + ('ct, 'sg) PreviewLocomotion \<times> Vector3d \<times> string list" where
  "multiPhaseEnergy ops eng com_energy state control =
     (if \<not> robot_model eng then Inr (eng, com_energy, [not_initialized])
      else
        let eng1 = eng\<lparr>actual_state := state\<rparr>
        in case energy_loop ops (cart_table eng1) state control of
             Inl e \<Rightarrow> Inl e
           | Inr (ct, com_energy', actual) \<Rightarrow> Inr (eng1\<lparr>cart_table := ct\<rparr>, com_energy', []))"

text \<open>
  The claim's words for the energy: the sum over the phases, where a STANCE phase adds
  what \<open>computeSystemEnergy\<close> returns at the running state, a FLIGHT phase adds
  nothing, and every phase moves the running state on by one \<open>computeResponse\<close>.
\<close>

fun energy_by_phase ::
  "('ct, 'sg) Collaborators \<Rightarrow> 'ct \<Rightarrow> ReducedBodyState \<Rightarrow> PreviewParams list \<Rightarrow>
   Vector3d \<times> 'ct \<times> ReducedBodyState" where
  "energy_by_phase ops ct s [] = (vzero, ct, s)"
| "energy_by_phase ops ct s (p # rest) =
     (case type (phase p) of
        STANCE \<Rightarrow>
          (case computeSystemEnergy ops ct s (duration p, cop_shift p) of
             (phase_energy, ct1) \<Rightarrow>
               (case energy_by_phase ops ct1 (computeResponse ops ct1 s (time s + duration p)) rest of
                  (e, r) \<Rightarrow> (vadd phase_energy e, r)))
      | FLIGHT \<Rightarrow>
          energy_by_phase ops ct (computeResponse ops ct s (time s + duration p)) rest)"

section \<open>Reading a preview sequence\<close>

text \<open>
  The YAML reader is not among the sources. A file is modelled by what its typed
  \<^verbatim>\<open>read\<close> calls answer for a key in a namespace: \<open>None\<close> when the key is absent
  (the call returns false and, as assumed here, leaves its output argument alone).
\<close>

record YamlWrapper =
  read_Vector3d :: "string \<Rightarrow> string list \<Rightarrow> Vector3d option"
  read_Vector2d :: "string \<Rightarrow> string list \<Rightarrow> Vector2d option"
  read_double :: "string \<Rightarrow> string list \<Rightarrow> real option"
  read_int :: "string \<Rightarrow> string list \<Rightarrow> int option"

definition digit :: "nat \<Rightarrow> char" where
  "digit d = ''0123456789'' ! d"

text \<open>\<^verbatim>\<open>std::to_string\<close> of a non-negative integer.\<close>

function to_string :: "nat \<Rightarrow> string" where
  "to_string n = (if n < 10 then [digit n] else to_string (n div 10) @ [digit (n mod 10)])"
  by pat_completeness auto
termination
  by (relation "measure id") auto

declare to_string.simps [simp del]

definition state_ns :: "string list" where
  "state_ns = [''preview_sequence'', ''state'']"

definition control_ns :: "string list" where
  "control_ns = [''preview_sequence'', ''preview_control'']"

definition phase_ns :: "nat \<Rightarrow> string list" where
  "phase_ns k = [''preview_sequence'', ''preview_control'', ''phase_'' @ to_string k]"

text \<open>Lines 154-164: the footstep shifts of one phase, one read per foot name.\<close>

definition read_foot_shift :: "YamlWrapper \<Rightarrow> nat \<Rightarrow> string \<Rightarrow> PreviewParams \<Rightarrow> PreviewParams" where
  "read_foot_shift yaml k name p =
     (case read_Vector2d yaml name (phase_ns k) of
        Some foot_shift \<Rightarrow>
          p\<lparr>phase := setFootShift
                        (setSwingFoot ((phase p)\<lparr>feet := feet (phase p) @ [name]\<rparr>) name)
                        name foot_shift\<rparr>
      | None \<Rightarrow> p)"

text \<open>
  Lines 128-164 on the parameters of phase \<open>k\<close>. A missing key ends the read: the
  result is then \<open>Inl\<close> of the parameters as they stand and of the line printed.
\<close>

definition read_phase ::
  "YamlWrapper \<Rightarrow> string list \<Rightarrow> nat \<Rightarrow> PreviewParams \<Rightarrow> PreviewParams \<times> string + PreviewParams" where
  "read_phase yaml names k p =
     (case read_double yaml ''duration'' (phase_ns k) of
        None \<Rightarrow> Inl (p, ''Error: the duration of phase_'' @ to_string k @ '' was not found'')
      | Some d \<Rightarrow>
          let p1 = p\<lparr>duration := d\<rparr>;
              p2 = (case read_Vector3d yaml ''cop_shift'' (phase_ns k) of
                      Some c \<Rightarrow> p1\<lparr>cop_shift := c, phase := setTypeOfPhase (phase p1) STANCE\<rparr>
                    | None \<Rightarrow> p1)
          in if type (phase p2) = STANCE
             then (case read_double yaml ''head_acc'' (phase_ns k) of
                     None \<Rightarrow>
                       Inl (p2, ''Error: the head_acc of phase_'' @ to_string k @ '' was not found'')
                   | Some h \<Rightarrow> Inr (fold (read_foot_shift yaml k) names (p2\<lparr>head_acc := h\<rparr>)))
             else Inr (fold (read_foot_shift yaml k) names p2))"

definition read_phase_step ::
  "YamlWrapper \<Rightarrow> string list \<Rightarrow> nat \<Rightarrow> PreviewControl \<Rightarrow> PreviewControl \<times> string + PreviewControl" where
  "read_phase_step yaml names k control =
     (case read_phase yaml names k (params control ! k) of
        Inl (p, msg) \<Rightarrow> Inl (control\<lparr>params := (params control)[k := p]\<rparr>, msg)
      | Inr p \<Rightarrow> Inr (control\<lparr>params := (params control)[k := p]\<rparr>))"

text \<open>
  Lines 124-165: the vector of parameters is resized to \<^verbatim>\<open>num_phases\<close> (a negative
  number makes \<^verbatim>\<open>resize\<close> throw) and the phases are read in turn.
\<close>

definition read_phases ::
  "('ct, 'sg) Collaborators \<Rightarrow> ('ct, 'sg) PreviewLocomotion \<Rightarrow> ReducedBodyState \<Rightarrow>
   PreviewControl \<Rightarrow> YamlWrapper \<Rightarrow> int \<Rightarrow>
   error + ReducedBodyState \<times> PreviewControl \<times> string list" where
  "read_phases ops eng state3 control yaml num_phases =
     (if num_phases < 0 then Inl LengthError
      else
        (let control1 = control\<lparr>params := resize (nat num_phases) (default_params ops)
                                             (params control)\<rparr>
         in (case for_loop 0 (nat num_phases) (read_phase_step yaml (feet_names eng)) control1 of
               Inl (control2, msg) \<Rightarrow> Inr (state3, control2, [msg])
             | Inr control2 \<Rightarrow> Inr (state3, control2, []))))"

text \<open>
  \<^verbatim>\<open>readPreviewSequence\<close> returns \<^verbatim>\<open>void\<close>: what the caller gets back are the
  two reference arguments \<open>state\<close> and \<open>control\<close>. The third component of the result
  holds the lines printed.
\<close>

definition readPreviewSequence ::
  "('ct, 'sg) Collaborators \<Rightarrow> ('ct, 'sg) PreviewLocomotion \<Rightarrow> ReducedBodyState \<Rightarrow>
   PreviewControl \<Rightarrow> YamlWrapper \<Rightarrow> error + ReducedBodyState \<times> PreviewControl \<times> string list" where
  "readPreviewSequence ops eng state control yaml =
     (if \<not> robot_model eng then Inr (state, control, [not_initialized])
      else
        (case read_Vector3d yaml ''com_pos'' state_ns of
           None \<Rightarrow> Inr (state, control, [''Error: the CoM height was not found''])
         | Some p \<Rightarrow>
            (let state1 = state\<lparr>com_pos := p\<rparr>
             in (case read_Vector3d yaml ''com_vel'' state_ns of
                   None \<Rightarrow> Inr (state1, control, [''Error: the CoM velocity was not found''])
                 | Some v \<Rightarrow>
                    (let state2 = state1\<lparr>com_vel := v\<rparr>
                     in (case read_Vector3d yaml ''cop'' state_ns of
                           None \<Rightarrow> Inr (state2, control, [''Error: the CoP was not found''])
                         | Some c \<Rightarrow>
                            (let state3 = state2\<lparr>cop := c\<rparr>
                             in (case read_int yaml ''number_phase'' control_ns of
                                   None \<Rightarrow>
                                     Inr (state3, control,
                                          [''Error: the number_phase was not found''])
                                 | Some num_phases \<Rightarrow>
                                     read_phases ops eng state3 control yaml num_phases))))))))"

section \<open>A reference instance for concrete runs\<close>

text \<open>
  To run the model on concrete inputs the collaborators need an instance. The one below
  is a stand-in, not the code of dwl: the cart table caches the start state and the
  control of the phase and moves the CoM at constant velocity, the frame transformations
  are those of a level base, and a spline generator jumps to its target at the end of
  the step. The general theorems hold for every instance.
\<close>

type_synonym ref_cart_table = "ReducedBodyState \<times> CartTableControlParams"
type_synonym ref_generator = "real \<times> Vector3d \<times> Vector3d \<times> StepParameters"

definition ref_state :: ReducedBodyState where
  "ref_state = \<lparr>time = 0, com_pos = (0, 0, 0.5), com_vel = (0.1, 0, 0), com_acc = (0, 0, 0),
     angular_pos = (0, 0, 0), angular_vel = (0, 0, 0), angular_acc = (0, 0, 0),
     cop = (0, 0, 0),
     support_region = [''LF'' \<mapsto> (0.3, 0.2, 0), ''RF'' \<mapsto> (0.3, - 0.2, 0)],
     foot_pos = [''LF'' \<mapsto> (0.3, 0.2, - 0.5), ''RF'' \<mapsto> (0.3, - 0.2, - 0.5)],
     foot_vel = [''LF'' \<mapsto> (0, 0, 0), ''RF'' \<mapsto> (0, 0, 0)],
     foot_acc = [''LF'' \<mapsto> (0, 0, 0), ''RF'' \<mapsto> (0, 0, 0)]\<rparr>"

definition zero_state :: ReducedBodyState where
  "zero_state = \<lparr>time = 0, com_pos = (0, 0, 0), com_vel = (0, 0, 0), com_acc = (0, 0, 0),
     angular_pos = (0, 0, 0), angular_vel = (0, 0, 0), angular_acc = (0, 0, 0),
     cop = (0, 0, 0), support_region = Map.empty, foot_pos = Map.empty,
     foot_vel = Map.empty, foot_acc = Map.empty\<rparr>"

definition stance_params :: "real \<Rightarrow> string list \<Rightarrow> PreviewParams" where
  "stance_params d swinging =
     \<lparr>duration = d, cop_shift = (0.01, 0, 0), head_acc = 0,
      phase = \<lparr>type = STANCE, feet = swinging, swing_feet = set swinging,
               feet_shift = map_of (map (\<lambda>name. (name, (0.1, 0))) swinging)\<rparr>\<rparr>"

definition flight_params :: "real \<Rightarrow> PreviewParams" where
  "flight_params d =
     \<lparr>duration = d, cop_shift = (0, 0, 0), head_acc = 0,
      phase = \<lparr>type = FLIGHT, feet = [], swing_feet = {}, feet_shift = Map.empty\<rparr>\<rparr>"

definition ref_ops :: "(ref_cart_table, ref_generator) Collaborators" where
  "ref_ops =
     \<lparr>initResponse = (\<lambda>ct s p. (s, p)),
      computeResponse =
        (\<lambda>ct s t. s\<lparr>time := t,
                     com_pos := vadd (com_pos (fst ct))
                                  (vscale (t - time (fst ct)) (com_vel (fst ct))),
                     com_vel := com_vel (fst ct)\<rparr>),
      computeSystemEnergy = (\<lambda>ct s p. (vscale (fst p) (com_vel s), (s, p))),
      getPendulumHeight = (\<lambda>ct. 0.5),
      default_generator = (0, (0, 0, 0), (0, 0, 0), (0, 0)),
      setParameters = (\<lambda>g t0 p0 p1 sp. (t0, p0, p1, sp)),
      generateTrajectory =
        (\<lambda>g t. case g of (t0, p0, p1, sp) \<Rightarrow>
                  (if t0 + fst sp \<le> t then p1 else p0, (0, 0, 0), (0, 0, 0))),
      fromBaseToWorldFrame = (\<lambda>v rpy. v),
      fromWorldToBaseFrame = (\<lambda>v rpy. v),
      default_state = zero_state,
      default_params = flight_params 0\<rparr>"

definition ref_engine :: "real \<Rightarrow> (ref_cart_table, ref_generator) PreviewLocomotion" where
  "ref_engine st =
     \<lparr>robot_model = True, sample_time = st, gravity = 9.81, mass = 80, num_feet = 2,
      feet_names = [''LF'', ''RF''], step_height = 0.1, force_threshold = 0,
      stance_posture = [''LF'' \<mapsto> (0.3, 0.2, - 0.5), ''RF'' \<mapsto> (0.3, - 0.2, - 0.5)],
      actual_state = zero_state, phase_state = zero_state,
      swing_params = \<lparr>swing_duration = 0, swing_feet_shift = Map.empty\<rparr>,
      feet_spline_generator = Map.empty,
      cart_table = (zero_state, (0, (0, 0, 0))),
      terrain = \<lparr>isTerrainInformation = False, getTerrainHeight = (\<lambda>xy. 0)\<rparr>\<rparr>"

text \<open>
  A preview-sequence file holding the three keys of the state and, when \<open>n\<close> is given,
  \<^verbatim>\<open>number_phase\<close>; it describes no phase.
\<close>

definition yaml_top :: "int option \<Rightarrow> YamlWrapper" where
  "yaml_top n =
     \<lparr>read_Vector3d =
        (\<lambda>key ns. if ns = state_ns \<and> key = ''com_pos'' then Some (0, 0, 0.6)
                   else if ns = state_ns \<and> key = ''com_vel'' then Some (0.2, 0, 0)
                   else if ns = state_ns \<and> key = ''cop'' then Some (0.01, 0, 0)
                   else None),
      read_Vector2d = (\<lambda>key ns. None),
      read_double = (\<lambda>key ns. None),
      read_int = (\<lambda>key ns. if ns = control_ns \<and> key = ''number_phase'' then n else None)\<rparr>"

text \<open>
  A two-phase sequence: a STANCE phase of 0.4 s in which the foot LF swings, then a
  STANCE phase of duration \<open>d\<close> with no swinging foot. \<open>lifted_state\<close> is a state in
  which LF is off the ground, and \<open>started_engine\<close> the reference engine once a
  preview from the reference state has begun.
\<close>

definition two_phase_control :: "real \<Rightarrow> PreviewControl" where
  "two_phase_control d = \<lparr>params = [stance_params 0.4 [''LF''], stance_params d []]\<rparr>"

definition lifted_state :: ReducedBodyState where
  "lifted_state = ref_state\<lparr>support_region := [''RF'' \<mapsto> (0.3, - 0.2, 0)]\<rparr>"

definition started_engine :: "real \<Rightarrow> (ref_cart_table, ref_generator) PreviewLocomotion" where
  "started_engine st = (ref_engine st)\<lparr>actual_state := ref_state\<rparr>"

text \<open>
  The doubles nearest to 0.1 and to 0.3 (0.5 is a double), and reference data away from
  the origin: a frame transformation that turns a vector about the vertical axis by the
  yaw (linearised), a state whose CoM is off the origin, 5 cm above the height the
  preview started from, turned and moving upwards, and an engine with a sloping terrain.
\<close>

definition double_tenth :: real where
  "double_tenth = 3602879701896397 / 2 ^ 55"

definition double_three_tenths :: real where
  "double_three_tenths = 5404319552844595 / 2 ^ 54"

definition turning_ops :: "(ref_cart_table, ref_generator) Collaborators" where
  "turning_ops =
     ref_ops\<lparr>fromBaseToWorldFrame :=
               (\<lambda>v rpy. case v of (x, y, z) \<Rightarrow> (x - Z rpy * y, y + Z rpy * x, z))\<rparr>"

definition tilted_state :: ReducedBodyState where
  "tilted_state =
     ref_state\<lparr>com_pos := (0.2, 0.1, 0.55), com_vel := (0.1, 0, 0.05),
               angular_pos := (0, 0, 0.5),
               support_region := [''RF'' \<mapsto> (0.3, - 0.2, 0)]\<rparr>"

definition terrain_engine :: "real \<Rightarrow> (ref_cart_table, ref_generator) PreviewLocomotion" where
  "terrain_engine st =
     (started_engine st)\<lparr>terrain := \<lparr>isTerrainInformation = True,
                                       getTerrainHeight = (\<lambda>xy. 0.1 * fst xy + 0.2 * snd xy)\<rparr>\<rparr>"


text \<open>
  The operations with a cart table whose pendulum height is the CoM height of the state
  the response was initialised with, a sequence of one STANCE phase of 0.4 s in which
  the foot LF swings, and the trajectory a preview returns with the support-region
  entry of a foot in its last state.
\<close>

definition height_ops :: "(ref_cart_table, ref_generator) Collaborators" where
  "height_ops = turning_ops\<lparr>getPendulumHeight := (\<lambda>ct. Z (com_pos (fst ct)))\<rparr>"

definition single_swing_control :: PreviewControl where
  "single_swing_control = \<lparr>params = [stance_params 0.4 [''LF'']]\<rparr>"

definition returned_trajectory ::
  "error + ('ct, 'sg) PreviewLocomotion \<times> ReducedBodyTrajectory \<times> string list \<Rightarrow>
   error + ReducedBodyTrajectory" where
  "returned_trajectory r = map_sum id (\<lambda>(eng, trajectory, printed). trajectory) r"

definition last_support :: "error + ReducedBodyTrajectory \<Rightarrow> string \<Rightarrow> error + Vector3d option" where
  "last_support r name = map_sum id (\<lambda>trajectory. support_region (last trajectory) name) r"


text \<open>
  What a call of \<^verbatim>\<open>readPreviewSequence\<close> hands back to its caller: the function
  returns \<^verbatim>\<open>void\<close>, so these are the two reference arguments and nothing else (the
  printed lines go to the standard output).
\<close>

definition returned_to_caller ::
  "error + ReducedBodyState \<times> PreviewControl \<times> string list \<Rightarrow>
   error + ReducedBodyState \<times> PreviewControl" where
  "returned_to_caller r = map_sum id (\<lambda>(state, control, printed). (state, control)) r"

text \<open>
  A preview-sequence file with two phases: phase 0 is complete and shifts the foot LF,
  phase 1 has a duration and a CoP shift but lacks \<^verbatim>\<open>head_acc\<close>.
\<close>

definition yaml_two_phases :: YamlWrapper where
  "yaml_two_phases =
     \<lparr>read_Vector3d =
        (\<lambda>key ns. if ns = state_ns \<and> key = ''com_pos'' then Some (0, 0, 0.6)
                   else if ns = state_ns \<and> key = ''com_vel'' then Some (0.2, 0, 0)
                   else if ns = state_ns \<and> key = ''cop'' then Some (0.01, 0, 0)
                   else if ns = phase_ns 0 \<and> key = ''cop_shift'' then Some (0.02, 0, 0)
                   else if ns = phase_ns 1 \<and> key = ''cop_shift'' then Some (0.03, 0, 0)
                   else None),
      read_Vector2d =
        (\<lambda>key ns. if ns = phase_ns 0 \<and> key = ''LF'' then Some (0.1, 0) else None),
      read_double =
        (\<lambda>key ns. if ns = phase_ns 0 \<and> key = ''duration'' then Some 0.4
                   else if ns = phase_ns 0 \<and> key = ''head_acc'' then Some 0
                   else if ns = phase_ns 1 \<and> key = ''duration'' then Some 0.3
                   else None),
      read_int = (\<lambda>key ns. if ns = control_ns \<and> key = ''number_phase'' then Some 2 else None)\<rparr>"

section \<open>What a preview leaves alone\<close>

text \<open>
  \<open>same_model eng eng'\<close>: the engine \<open>eng'\<close> differs from \<open>eng\<close> at most in the
  context of the running preview (the phase state, the swing parameters, the spline
  generators and the cache of the cart-table model). \<open>same_but_swing eng eng'\<close> also
  keeps that cache.
\<close>

definition same_model :: "('ct, 'sg) PreviewLocomotion \<Rightarrow> ('ct, 'sg) PreviewLocomotion \<Rightarrow> bool" where
  "same_model eng eng' =
     (eng' = eng\<lparr>phase_state := phase_state eng', swing_params := swing_params eng',
                 feet_spline_generator := feet_spline_generator eng',
                 cart_table := cart_table eng'\<rparr>)"

definition same_but_swing :: "('ct, 'sg) PreviewLocomotion \<Rightarrow> ('ct, 'sg) PreviewLocomotion \<Rightarrow> bool" where
  "same_but_swing eng eng' =
     (eng' = eng\<lparr>phase_state := phase_state eng', swing_params := swing_params eng',
                 feet_spline_generator := feet_spline_generator eng'\<rparr>)"

definition no_back_error :: "error \<Rightarrow> bool" where
  "no_back_error e = (e \<noteq> BackOfEmptyTrajectory \<and> e \<noteq> BackOfEmptyParams)"

text \<open>
  The support region after the loop over the feet \<open>names\<close>: a foot that swung in the
  phase \<open>prev\<close>, when that phase lasted longer than the sample time, stands at its
  foothold; any other foot of \<open>names\<close> is dropped when \<open>removed\<close> holds for it; every
  other entry is as in \<open>actual\<close>.
\<close>

definition updated_support ::
  "('ct, 'sg) Collaborators \<Rightarrow> ('ct, 'sg) PreviewLocomotion \<Rightarrow> PreviewParams \<Rightarrow> (string \<Rightarrow> bool) \<Rightarrow>
   ReducedBodyState \<Rightarrow> string list \<Rightarrow> (string \<rightharpoonup> Vector3d)" where
  "updated_support ops eng prev removed actual names =
     (\<lambda>name. if name \<in> set names
             then (if isSwingFoot (phase prev) name \<and> sample_time eng < duration prev
                   then map_option (foothold_target ops eng actual (phase prev) name)
                          (stance_posture eng name)
                   else if removed name then None else support_region actual name)
             else support_region actual name)"

text \<open>
  A well-formed engine has a positive sample time and, for each of its \<open>num_feet\<close>
  feet, a name and a nominal stance position (\<^verbatim>\<open>resetFromURDFModel\<close> takes all three
  from the same floating-base system). \<open>stance_phase_ok\<close> describes a STANCE phase
  whose sample count is representable and whose listed feet are feet of the robot.
\<close>

definition well_formed :: "('ct, 'sg) PreviewLocomotion \<Rightarrow> bool" where
  "well_formed eng =
     (0 < sample_time eng \<and> num_feet eng \<le> length (feet_names eng)
      \<and> set (take (num_feet eng) (feet_names eng)) \<subseteq> dom (stance_posture eng))"

definition stance_phase_ok :: "('ct, 'sg) PreviewLocomotion \<Rightarrow> PreviewParams \<Rightarrow> bool" where
  "stance_phase_ok eng p =
     (type (phase p) = STANCE \<and> 0 \<le> duration p
      \<and> \<lfloor>double_div (duration p) (sample_time eng)\<rfloor> + 1 < 2 ^ 32
      \<and> set (feet (phase p)) \<subseteq> dom (stance_posture eng))"

section \<open>Counted loops\<close>

lemma for_loop_step: "k < n \<Longrightarrow> for_loop k n body s = (case body k s of Inl e \<Rightarrow> Inl e | Inr s' \<Rightarrow> for_loop (Suc k) n body s')"
  by (subst for_loop.simps) simp

lemma for_loop_done: "\<not> k < n \<Longrightarrow> for_loop k n body s = Inr s"
  by (subst for_loop.simps) simp

lemma for_loop_total:
  assumes "I k s"
    and "\<And>j t. k \<le> j \<Longrightarrow> j < n \<Longrightarrow> I j t \<Longrightarrow> \<exists>t'. body j t = Inr t' \<and> I (Suc j) t'"
  shows "\<exists>s'. for_loop k n body s = Inr s' \<and> I (max k n) s'"
  using assms
proof (induction k n body s rule: for_loop.induct)
  case (1 k n body s)
  show ?case
  proof (cases "k < n")
    case True
    from "1.prems"(2)[OF le_refl True "1.prems"(1)]
    obtain t' where b: "body k s = Inr t'" and i: "I (Suc k) t'" by blast
    have "\<exists>s'. for_loop (Suc k) n body t' = Inr s' \<and> I (max (Suc k) n) s'"
      using "1.IH"[OF True b i] "1.prems"(2) by (metis Suc_leD)
    then show ?thesis using True b by (simp add: for_loop_step max_def)
  next
    case False
    then show ?thesis using "1.prems"(1) by (simp add: for_loop_done max_def)
  qed
qed

lemma for_loop_split:
  "k \<le> m \<Longrightarrow> m \<le> n \<Longrightarrow>
   for_loop k n body s = (case for_loop k m body s of Inl e \<Rightarrow> Inl e | Inr s' \<Rightarrow> for_loop m n body s')"
proof (induction k m body s rule: for_loop.induct)
  case (1 k m body s)
  show ?case
  proof (cases "k < m")
    case True
    then have kn: "k < n" using "1.prems" by simp
    show ?thesis
    proof (cases "body k s")
      case (Inl e)
      then show ?thesis using True kn by (simp add: for_loop_step)
    next
      case (Inr t)
      from "1.IH"[OF True Inr] True "1.prems"
      have "for_loop (Suc k) n body t =
            (case for_loop (Suc k) m body t of Inl e \<Rightarrow> Inl e | Inr s' \<Rightarrow> for_loop m n body s')"
        by simp
      then show ?thesis using True kn Inr by (simp add: for_loop_step)
    qed
  next
    case False
    then have "k = m" using "1.prems" by simp
    then show ?thesis by (simp add: for_loop_done)
  qed
qed

lemma for_loop_cases:
  assumes "I k s"
    and "\<And>j t t'. k \<le> j \<Longrightarrow> j < n \<Longrightarrow> I j t \<Longrightarrow> body j t = Inr t' \<Longrightarrow> I (Suc j) t'"
  shows "case for_loop k n body s of
           Inr s' \<Rightarrow> I (max k n) s'
         | Inl e \<Rightarrow> (\<exists>j t. k \<le> j \<and> j < n \<and> I j t \<and> body j t = Inl e)"
  using assms
proof (induction k n body s rule: for_loop.induct)
  case (1 k n body s)
  show ?case
  proof (cases "k < n")
    case True
    show ?thesis
    proof (cases "body k s")
      case (Inl e)
      then show ?thesis using True "1.prems"(1) by (auto simp: for_loop_step)
    next
      case (Inr t')
      have i: "I (Suc k) t'" using "1.prems"(2)[OF le_refl True "1.prems"(1) Inr] .
      have "case for_loop (Suc k) n body t' of
              Inr s' \<Rightarrow> I (max (Suc k) n) s'
            | Inl e \<Rightarrow> (\<exists>j t. Suc k \<le> j \<and> j < n \<and> I j t \<and> body j t = Inl e)"
        using "1.IH"[OF True Inr i] "1.prems"(2) by (metis Suc_leD)
      moreover have "for_loop k n body s = for_loop (Suc k) n body t'"
        using True Inr by (simp add: for_loop_step)
      moreover have "max k n = max (Suc k) n" using True by (simp add: max_def)
      ultimately show ?thesis
        by (auto split: sum.splits dest: Suc_leD)
    qed
  next
    case False
    then show ?thesis using "1.prems"(1) by (simp add: for_loop_done max_def)
  qed
qed

lemma for_loop_rel:
  assumes "Q s1 s2"
    and "\<And>j t1 t2. Q t1 t2 \<Longrightarrow> rel_sum (=) Q (body1 j t1) (body2 j t2)"
  shows "rel_sum (=) Q (for_loop k n body1 s1) (for_loop k n body2 s2)"
  using assms(1)
proof (induction "n - k" arbitrary: k s1 s2)
  case 0
  then show ?case by (simp add: for_loop_done)
next
  case (Suc m)
  then have lt: "k < n" by simp
  have m: "m = n - Suc k" using Suc.hyps(2) by simp
  have r: "rel_sum (=) Q (body1 k s1) (body2 k s2)" using assms(2)[OF Suc.prems] .
  show ?case
  proof (cases "body1 k s1")
    case (Inl e1)
    then show ?thesis using r lt by (cases "body2 k s2") (simp_all add: for_loop_step)
  next
    case (Inr t1)
    then obtain t2 where t2: "body2 k s2 = Inr t2" and q: "Q t1 t2"
      using r by (cases "body2 k s2") simp_all
    show ?thesis using lt Inr t2 Suc.hyps(1)[OF m q] by (simp add: for_loop_step)
  qed
qed

section \<open>Facts about the rounded quotient\<close>

lemma round_half_even_ge_floor: "\<lfloor>m\<rfloor> \<le> round_half_even m"
  by (simp add: round_half_even_def Let_def)

lemma binary_exponent_lower:
  "2 powi e \<le> a \<Longrightarrow> e \<le> binary_exponent n e a \<and> 2 powi (binary_exponent n e a) \<le> a"
proof (induction n arbitrary: e)
  case 0
  then show ?case by simp
next
  case (Suc n)
  show ?case
  proof (cases "2 powi (e + 1) \<le> a")
    case True
    from Suc.IH[OF True] Suc.prems True show ?thesis by auto
  next
    case False
    then show ?thesis using Suc.prems by simp
  qed
qed

lemma round_to_double_nonneg: "0 \<le> x \<Longrightarrow> 0 \<le> round_to_double x"
proof -
  assume x: "0 \<le> x"
  let ?e = "binary_exponent 2100 0 \<bar>x\<bar>"
  have u: "(0::real) < 2 powi (?e - 52)" by simp
  have "0 \<le> \<bar>x\<bar> / 2 powi (?e - 52)" using u by simp
  then have "0 \<le> \<lfloor>\<bar>x\<bar> / 2 powi (?e - 52)\<rfloor>" by simp
  then have "0 \<le> round_half_even (\<bar>x\<bar> / 2 powi (?e - 52))"
    using round_half_even_ge_floor[of "\<bar>x\<bar> / 2 powi (?e - 52)"] by linarith
  then have "0 \<le> real_of_int (round_half_even (\<bar>x\<bar> / 2 powi (?e - 52))) * 2 powi (?e - 52)"
    using u by simp
  then show ?thesis
    using x unfolding round_to_double_def Let_def
    by (cases "x = 0") (simp_all add: sgn_if)
qed

lemma round_to_double_ge_one:
  assumes "1 \<le> x"
  shows "1 \<le> round_to_double x"
proof -
  let ?e = "binary_exponent 2100 0 x"
  let ?u = "(2::real) powi (?e - 52)"
  have e: "0 \<le> ?e" "2 powi ?e \<le> x"
    using binary_exponent_lower[of 0 x 2100] assms by simp_all
  have u: "0 < ?u" by simp
  have pw: "(2::real) powi ?e = 2 ^ 52 * ?u"
    by (simp add: power_int_diff)
  have "2 ^ 52 \<le> x / ?u"
    using e(2) u unfolding pw by (simp add: pos_le_divide_eq)
  then have "(2 ^ 52 :: int) \<le> \<lfloor>x / ?u\<rfloor>"
    by (simp add: le_floor_iff)
  then have "(2 ^ 52 :: int) \<le> round_half_even (x / ?u)"
    using round_half_even_ge_floor[of "x / ?u"] by linarith
  then have "(2 ^ 52 :: real) \<le> real_of_int (round_half_even (x / ?u))"
    by (metis of_int_le_iff of_int_numeral of_int_power)
  then have "2 ^ 52 * ?u \<le> real_of_int (round_half_even (x / ?u)) * ?u"
    using u by simp
  then have "2 powi ?e \<le> real_of_int (round_half_even (x / ?u)) * ?u"
    unfolding pw .
  moreover have "(1::real) \<le> 2 powi ?e"
    using e(1) by simp
  ultimately have "1 \<le> real_of_int (round_half_even (x / ?u)) * ?u" by linarith
  then show ?thesis
    using assms unfolding round_to_double_def Let_def by (simp add: sgn_if)
qed

lemma binary_exponent_numeral:
  "binary_exponent (numeral n) e a =
     (if a < 2 powi e
      then (if e \<le> - 1022 then e else binary_exponent (pred_numeral n) (e - 1) a)
      else if 2 powi (e + 1) \<le> a then binary_exponent (pred_numeral n) (e + 1) a
      else e)"
  by (simp add: numeral_eq_Suc)

section \<open>Facts about the previews of one phase\<close>

lemma generateSwing_time [simp]: "time (snd (generateSwing ops eng st t)) = time st"
  by (simp add: generateSwing_def Let_def)

lemma generateSwing_sample_time [simp]: "sample_time (fst (generateSwing ops eng st t)) = sample_time eng"
  by (simp add: generateSwing_def Let_def)

lemma generateSwing_cart_table [simp]: "cart_table (fst (generateSwing ops eng st t)) = cart_table eng"
  by (simp add: generateSwing_def Let_def)

lemma swing_shifts_total:
  "set names \<subseteq> dom (stance_posture eng) \<Longrightarrow>
   \<exists>m. swing_shifts ops eng ts ph names acc = Inr m"
  by (induction names arbitrary: acc) (auto simp: Let_def)

lemma initSwing_total:
  assumes "set (feet (phase ps)) \<subseteq> dom (stance_posture eng)"
  shows "\<exists>eng'. initSwing ops eng state ps = Inr eng' \<and> sample_time eng' = sample_time eng
           \<and> cart_table eng' = cart_table eng"
proof -
  obtain m where "swing_shifts ops (eng\<lparr>phase_state := state\<rparr>)
      (computeResponse ops (cart_table eng) (default_state ops) (time state + duration ps))
      (phase ps) (feet (phase ps)) Map.empty = Inr m"
    using swing_shifts_total[of "feet (phase ps)" "eng\<lparr>phase_state := state\<rparr>" ops
        "computeResponse ops (cart_table eng) (default_state ops) (time state + duration ps)"
        "phase ps" Map.empty] assms
    by auto
  then show ?thesis by (simp add: initSwing_def Let_def)
qed

lemma sample_count_ok:
  assumes "0 < st" "st \<le> d" "\<lfloor>double_div d st\<rfloor> + 1 < 2 ^ 32"
  shows "sample_count d st = Inr (nat \<lfloor>double_div d st\<rfloor>)" and "succ_u32 (nat \<lfloor>double_div d st\<rfloor>) = nat \<lfloor>double_div d st\<rfloor> + 1"
    and "1 \<le> nat \<lfloor>double_div d st\<rfloor>"
proof -
  have "1 \<le> d / st" using assms by simp
  then have "1 \<le> double_div d st"
    unfolding double_div_def by (rule round_to_double_ge_one)
  then have q: "1 \<le> \<lfloor>double_div d st\<rfloor>" by linarith
  then show "sample_count d st = Inr (nat \<lfloor>double_div d st\<rfloor>)"
    using assms by (simp add: sample_count_def Let_def)
  have "nat \<lfloor>double_div d st\<rfloor> + 1 < 2 ^ 32" using assms(3) q by (simp add: nat_less_iff)
  then show "succ_u32 (nat \<lfloor>double_div d st\<rfloor>) = nat \<lfloor>double_div d st\<rfloor> + 1"
    by (simp add: succ_u32_def)
  show "1 \<le> nat \<lfloor>double_div d st\<rfloor>" using q by linarith
qed

lemma stance_loop_full:
  assumes tm: "\<And>ct s. time (computeResponse ops ct s (time s)) = time s"
    and len: "length tr0 = N + 1" and st: "sample_time eng0 = st"
  shows "\<exists>e tr cs. for_loop 0 (N + 1) (stance_sample ops state ps True 0 N) (eng0, tr0, cs0) = Inr (e, tr, cs)
           \<and> length tr = N + 1
           \<and> (\<forall>j<N + 1. time (tr ! j) = time state + sample_offset st (duration ps) N j)"
proof -
  define I where "I = (\<lambda>k (acc :: ('a, 'b) PreviewLocomotion \<times> ReducedBodyTrajectory \<times> ReducedBodyState).
      sample_time (fst acc) = st \<and> length (fst (snd acc)) = N + 1
      \<and> (\<forall>j<k. time (fst (snd acc) ! j) = time state + sample_offset st (duration ps) N j))"
  have init: "I 0 (eng0, tr0, cs0)" using len st by (simp add: I_def)
  have step: "\<exists>t'. stance_sample ops state ps True 0 N j t = Inr t' \<and> I (Suc j) t'"
    if "j < N + 1" "I j t" for j t
  proof -
    obtain e tr cs where t: "t = (e, tr, cs)" by (cases t) auto
    from that t have a: "sample_time e = st" "length tr = N + 1"
      and b: "\<forall>i<j. time (tr ! i) = time state + sample_offset st (duration ps) N i"
      by (auto simp: I_def)
    have tm': "time (computeResponse ops ct (c\<lparr>time := x\<rparr>) x) = x" for ct c x
      using tm[of ct "c\<lparr>time := x\<rparr>"] by simp
    show ?thesis
      using that(1) a b tm'
      by (auto simp: t stance_sample_def Let_def write_at_def I_def split_beta nth_list_update less_Suc_eq)
  qed
  from for_loop_total[of I 0 "(eng0, tr0, cs0)" "N + 1" "stance_sample ops state ps True 0 N", OF init]
    step
  obtain s' where r: "for_loop 0 (N + 1) (stance_sample ops state ps True 0 N) (eng0, tr0, cs0) = Inr s'"
    and i: "I (max 0 (N + 1)) s'" by blast
  obtain e tr cs where s': "s' = (e, tr, cs)" by (cases s') auto
  show ?thesis using r i by (simp add: s' I_def)
qed

lemma stancePreview_full_run:
  assumes tm: "\<forall>ct s. time (computeResponse ops ct s (time s)) = time s"
    and pos: "0 < sample_time eng"
    and dur: "sample_time eng \<le> duration ps"
    and rng: "\<lfloor>double_div (duration ps) (sample_time eng)\<rfloor> + 1 < 2 ^ 32"
    and feet_ok: "set (feet (phase ps)) \<subseteq> dom (stance_posture eng)"
  shows "\<exists>eng' traj.
           stancePreview ops eng trajectory state ps True = Inr (eng', traj)
         \<and> length traj = nat \<lfloor>double_div (duration ps) (sample_time eng)\<rfloor> + 1
         \<and> (\<forall>k < nat \<lfloor>double_div (duration ps) (sample_time eng)\<rfloor>.
               time (traj ! k) = time state + sample_time eng * real (k + 1))
         \<and> time (last traj) = time state + duration ps"
proof -
  let ?N = "nat \<lfloor>double_div (duration ps) (sample_time eng)\<rfloor>"
  let ?eng1 = "eng\<lparr>cart_table := initResponse ops (cart_table eng) state (duration ps, cop_shift ps)\<rparr>"
  note sc = sample_count_ok[OF pos dur rng]
  obtain eng2 where i2: "initSwing ops ?eng1 state ps = Inr eng2"
    and st2: "sample_time eng2 = sample_time eng"
    using initSwing_total[of ps ?eng1 ops state] feet_ok by auto
  let ?tr0 = "resize (?N + 1) (default_state ops) trajectory"
  have len0: "length ?tr0 = ?N + 1" by (simp add: resize_def)
  from stance_loop_full[of ops ?tr0 ?N eng2 "sample_time eng" state ps state, OF _ len0 st2] tm
  obtain e tr cs where
    loop: "for_loop 0 (?N + 1) (stance_sample ops state ps True 0 ?N) (eng2, ?tr0, state) = Inr (e, tr, cs)"
    and len: "length tr = ?N + 1"
    and times: "\<forall>j<?N + 1. time (tr ! j) = time state + sample_offset (sample_time eng) (duration ps) ?N j"
    by blast
  have run: "stancePreview ops eng trajectory state ps True = Inr (e, tr)"
    using dur sc(1,2) i2 loop by (simp add: stancePreview_def Let_def)
  have regular: "\<forall>k < ?N. time (tr ! k) = time state + sample_time eng * real (k + 1)"
    using times by (simp add: sample_offset_def)
  have "tr \<noteq> []" using len by auto
  then have "last tr = tr ! ?N" using len by (simp add: last_conv_nth)
  then have pinned: "time (last tr) = time state + duration ps"
    using times by (simp add: sample_offset_def)
  show ?thesis using run len regular pinned by blast
qed

lemma flight_loop_overrun:
  assumes len: "length tr0 = N" 
  shows "for_loop 0 (N + 1) (flight_sample ops state ps True 0 N) (eng0, tr0) = Inl (IndexOutOfBounds N N)"
proof -
  define I where "I = (\<lambda>(k::nat) (acc :: ('a, 'b) PreviewLocomotion \<times> ReducedBodyTrajectory).
      length (snd acc) = N)"
  have step: "\<exists>t'. flight_sample ops state ps True 0 N j t = Inr t' \<and> I (Suc j) t'"
    if "j < N" "I j t" for j t
    using that
    by (cases t) (auto simp: flight_sample_def Let_def write_at_def I_def split_beta)
  from for_loop_total[of I 0 "(eng0, tr0)" N "flight_sample ops state ps True 0 N"] step len
  obtain s' where r: "for_loop 0 N (flight_sample ops state ps True 0 N) (eng0, tr0) = Inr s'"
    and i: "I (max 0 N) s'" by (auto simp: I_def)
  have last_step: "flight_sample ops state ps True 0 N N s' = Inl (IndexOutOfBounds N N)"
    using i by (cases s') (auto simp: flight_sample_def Let_def write_at_def I_def split_beta)
  have "for_loop 0 (N + 1) (flight_sample ops state ps True 0 N) (eng0, tr0)
        = for_loop N (N + 1) (flight_sample ops state ps True 0 N) s'"
    using for_loop_split[of 0 N "N + 1" "flight_sample ops state ps True 0 N" "(eng0, tr0)"]
    by (simp only: r sum.case le0 le_add1)
  also have "\<dots> = Inl (IndexOutOfBounds N N)"
    using last_step by (simp add: for_loop_step)
  finally show ?thesis .
qed

lemma flightPreview_full_overrun:
  assumes pos: "0 < sample_time eng"
    and dur: "sample_time eng \<le> duration ps"
    and rng: "\<lfloor>double_div (duration ps) (sample_time eng)\<rfloor> + 1 < 2 ^ 32"
    and feet_ok: "set (feet (phase ps)) \<subseteq> dom (stance_posture eng)"
  shows "flightPreview ops eng trajectory state ps True
         = Inl (IndexOutOfBounds (nat \<lfloor>double_div (duration ps) (sample_time eng)\<rfloor>)
                  (nat \<lfloor>double_div (duration ps) (sample_time eng)\<rfloor>))"
proof -
  let ?N = "nat \<lfloor>double_div (duration ps) (sample_time eng)\<rfloor>"
  note sc = sample_count_ok[OF pos dur rng]
  obtain eng2 where i2: "initSwing ops eng state ps = Inr eng2"
    using initSwing_total[of ps eng ops state] feet_ok by auto
  have len0: "length (resize ?N (default_state ops) trajectory) = ?N" by (simp add: resize_def)
  show ?thesis
    using dur sc(1,2) i2 flight_loop_overrun[OF len0]
    by (simp add: flightPreview_def)
qed

lemma short_phase_untouched:
  "duration ps < sample_time eng \<Longrightarrow>
   stancePreview ops eng trajectory state ps True = Inr (eng, trajectory)
   \<and> flightPreview ops eng trajectory state ps True = Inr (eng, trajectory)"
  by (simp add: stancePreview_def flightPreview_def)

subsection \<open>The engine after a preview, and the errors a preview can end in\<close>

lemma same_model_refl [simp]: "same_model eng eng"
  by (simp add: same_model_def)

lemma same_model_trans: "same_model a b \<Longrightarrow> same_model b c \<Longrightarrow> same_model a c"
  by (cases a; cases b; cases c) (auto simp: same_model_def)

lemma same_modelD:
  assumes "same_model eng eng'"
  shows "robot_model eng' = robot_model eng" "sample_time eng' = sample_time eng"
    "gravity eng' = gravity eng" "num_feet eng' = num_feet eng"
    "feet_names eng' = feet_names eng" "step_height eng' = step_height eng"
    "stance_posture eng' = stance_posture eng" "actual_state eng' = actual_state eng"
    "terrain eng' = terrain eng"
  using assms by (cases eng; cases eng'; simp add: same_model_def)+

lemma same_model_updates:
  "same_model eng (eng\<lparr>cart_table := ct\<rparr>)"
  "same_model eng (eng\<lparr>phase_state := p\<rparr>)"
  "same_model eng (eng\<lparr>feet_spline_generator := g\<rparr>)"
  "same_model eng (eng\<lparr>swing_params := sp\<rparr>)"
  by (simp_all add: same_model_def)

lemma generateSwing_same_model: "same_model eng (fst (generateSwing ops eng st t))"
  by (simp add: generateSwing_def Let_def same_model_def)

lemma swing_shifts_error:
  "swing_shifts ops eng ts ph names acc = Inl e \<Longrightarrow> no_back_error e"
  by (induction names arbitrary: acc) (auto simp: Let_def no_back_error_def split: option.splits)

lemma initSwing_post:
  "case initSwing ops eng state ps of
     Inr eng' \<Rightarrow> same_model eng eng' \<and> cart_table eng' = cart_table eng
   | Inl e \<Rightarrow> no_back_error e"
  by (auto simp: initSwing_def Let_def same_model_def split: sum.splits dest: swing_shifts_error)

lemma write_at_error: "write_at xs i v = Inl e \<Longrightarrow> no_back_error e"
  by (auto simp: write_at_def no_back_error_def split: if_splits)

lemma read_at_error: "read_at xs i = Inl e \<Longrightarrow> no_back_error e"
  by (auto simp: read_at_def no_back_error_def split: if_splits)

lemma sample_count_error: "sample_count d st = Inl e \<Longrightarrow> no_back_error e"
  by (auto simp: sample_count_def no_back_error_def Let_def split: if_splits)

lemma stance_sample_post:
  "case stance_sample ops state ps full idx N k (eng, tr, cs) of
     Inr (eng', tr', cs') \<Rightarrow> same_model eng eng'
   | Inl e \<Rightarrow> no_back_error e"
  using generateSwing_same_model[where eng = eng and ops = ops]
  by (auto simp: stance_sample_def Let_def split_beta split: sum.splits dest: write_at_error)

lemma flight_sample_post:
  "case flight_sample ops state ps full idx N k (eng, tr) of
     Inr (eng', tr') \<Rightarrow> same_model eng eng'
   | Inl e \<Rightarrow> no_back_error e"
  using generateSwing_same_model[where eng = eng and ops = ops]
  by (auto simp: flight_sample_def Let_def split_beta split: sum.splits dest: write_at_error)

lemma stance_loop_post:
  "case for_loop k n (stance_sample ops state ps full idx N) (eng, tr, cs) of
     Inr (eng', tr', cs') \<Rightarrow> same_model eng eng'
   | Inl e \<Rightarrow> no_back_error e"
proof -
  define I where "I = (\<lambda>(j::nat) (acc :: ('a, 'b) PreviewLocomotion \<times> ReducedBodyTrajectory \<times> ReducedBodyState).
      same_model eng (fst acc))"
  have step: "I (Suc j) t'" if "I j t" "stance_sample ops state ps full idx N j t = Inr t'" for j t t'
    using that stance_sample_post[where ops = ops and state = state and ps = ps and full = full
            and idx = idx and N = N and k = j and eng = "fst t" and tr = "fst (snd t)"
            and cs = "snd (snd t)"]
    by (auto simp: I_def split: prod.splits intro: same_model_trans)
  have err: "no_back_error e" if "stance_sample ops state ps full idx N j t = Inl e" for j t e
    using that stance_sample_post[where ops = ops and state = state and ps = ps and full = full
            and idx = idx and N = N and k = j and eng = "fst t" and tr = "fst (snd t)"
            and cs = "snd (snd t)"]
    by simp
  from for_loop_cases[of I k "(eng, tr, cs)" n "stance_sample ops state ps full idx N"] step
  show ?thesis by (auto simp: I_def split: sum.splits dest: err)
qed

lemma flight_loop_post:
  "case for_loop k n (flight_sample ops state ps full idx N) (eng, tr) of
     Inr (eng', tr') \<Rightarrow> same_model eng eng'
   | Inl e \<Rightarrow> no_back_error e"
proof -
  define I where "I = (\<lambda>(j::nat) (acc :: ('a, 'b) PreviewLocomotion \<times> ReducedBodyTrajectory).
      same_model eng (fst acc))"
  have step: "I (Suc j) t'" if "I j t" "flight_sample ops state ps full idx N j t = Inr t'" for j t t'
    using that flight_sample_post[where ops = ops and state = state and ps = ps and full = full
            and idx = idx and N = N and k = j and eng = "fst t" and tr = "snd t"]
    by (auto simp: I_def split: prod.splits intro: same_model_trans)
  have err: "no_back_error e" if "flight_sample ops state ps full idx N j t = Inl e" for j t e
    using that flight_sample_post[where ops = ops and state = state and ps = ps and full = full
            and idx = idx and N = N and k = j and eng = "fst t" and tr = "snd t"]
    by simp
  from for_loop_cases[of I k "(eng, tr)" n "flight_sample ops state ps full idx N"] step
  show ?thesis by (auto simp: I_def split: sum.splits dest: err)
qed

lemma stancePreview_post:
  "case stancePreview ops eng tr state ps full of
     Inr (eng', tr') \<Rightarrow> same_model eng eng'
   | Inl e \<Rightarrow> no_back_error e"
proof (cases "full \<and> duration ps < sample_time eng")
  case True
  then show ?thesis by (simp add: stancePreview_def)
next
  case guard: False
  let ?eng1 = "eng\<lparr>cart_table := initResponse ops (cart_table eng) state (duration ps, cop_shift ps)\<rparr>"
  have a: "same_model eng ?eng1" by (rule same_model_updates)
  show ?thesis
  proof (cases "sample_count (duration ps) (sample_time eng)")
    case (Inl e)
    then show ?thesis using guard sample_count_error[OF Inl]
      by (simp add: stancePreview_def Let_def)
  next
    case (Inr N)
    show ?thesis
    proof (cases full)
      case True
      show ?thesis
      proof (cases "initSwing ops ?eng1 state ps")
        case (Inl e)
        then show ?thesis
          using guard Inr True
            initSwing_post[where ops = ops and eng = ?eng1 and state = state and ps = ps]
          by (simp add: stancePreview_def Let_def)
      next
        case i: (Inr eng2)
        have sm: "same_model eng eng2"
          using i a initSwing_post[where ops = ops and eng = ?eng1 and state = state and ps = ps]
          by (auto intro: same_model_trans)
        have "stancePreview ops eng tr state ps full =
              (case for_loop 0 (succ_u32 N) (stance_sample ops state ps True 0 N)
                      (eng2, resize (succ_u32 N) (default_state ops) tr, state) of
                 Inl e \<Rightarrow> Inl e | Inr (eng4, tr2, cs) \<Rightarrow> Inr (eng4, tr2))"
          using guard Inr True i by (simp add: stancePreview_def Let_def)
        then show ?thesis
          using sm stance_loop_post[where k = 0 and n = "succ_u32 N" and ops = ops
              and state = state and ps = ps and full = True and idx = 0 and N = N and eng = eng2
              and tr = "resize (succ_u32 N) (default_state ops) tr" and cs = state]
          by (auto split: sum.splits intro: same_model_trans)
      qed
    next
      case False
      have "stancePreview ops eng tr state ps full =
            (case for_loop N (succ_u32 N) (stance_sample ops state ps False N N)
                    (?eng1, resize 1 (default_state ops) tr, state) of
               Inl e \<Rightarrow> Inl e | Inr (eng4, tr2, cs) \<Rightarrow> Inr (eng4, tr2))"
        using Inr False by (simp add: stancePreview_def Let_def)
      then show ?thesis
        using a stance_loop_post[where k = N and n = "succ_u32 N" and ops = ops
            and state = state and ps = ps and full = False and idx = N and N = N and eng = ?eng1
            and tr = "resize 1 (default_state ops) tr" and cs = state]
        by (auto split: sum.splits intro: same_model_trans)
    qed
  qed
qed

lemma flightPreview_post:
  "case flightPreview ops eng tr state ps full of
     Inr (eng', tr') \<Rightarrow> same_model eng eng'
   | Inl e \<Rightarrow> no_back_error e"
proof (cases "full \<and> duration ps < sample_time eng")
  case True
  then show ?thesis by (simp add: flightPreview_def)
next
  case guard: False
  show ?thesis
  proof (cases "sample_count (duration ps) (sample_time eng)")
    case (Inl e)
    then show ?thesis using guard sample_count_error[OF Inl]
      by (simp add: flightPreview_def)
  next
    case (Inr N)
    show ?thesis
    proof (cases full)
      case True
      show ?thesis
      proof (cases "initSwing ops eng state ps")
        case (Inl e)
        then show ?thesis
          using guard Inr True
            initSwing_post[where ops = ops and eng = eng and state = state and ps = ps]
          by (simp add: flightPreview_def)
      next
        case i: (Inr eng2)
        have sm: "same_model eng eng2"
          using i initSwing_post[where ops = ops and eng = eng and state = state and ps = ps]
          by auto
        have "flightPreview ops eng tr state ps full =
              for_loop 0 (succ_u32 N) (flight_sample ops state ps True 0 N)
                (eng2, resize N (default_state ops) tr)"
          using guard Inr True i by (simp add: flightPreview_def)
        then show ?thesis
          using sm flight_loop_post[where k = 0 and n = "succ_u32 N" and ops = ops
              and state = state and ps = ps and full = True and idx = 0 and N = N and eng = eng2
              and tr = "resize N (default_state ops) tr"]
          by (auto split: sum.splits intro: same_model_trans)
      qed
    next
      case False
      have "flightPreview ops eng tr state ps full =
            for_loop N (succ_u32 N) (flight_sample ops state ps False N N)
              (eng, resize 1 (default_state ops) tr)"
        using Inr False by (simp add: flightPreview_def)
      then show ?thesis
        using flight_loop_post[where k = N and n = "succ_u32 N" and ops = ops
            and state = state and ps = ps and full = False and idx = N and N = N and eng = eng
            and tr = "resize 1 (default_state ops) tr"]
        by (auto split: sum.splits)
    qed
  qed
qed

section \<open>Facts about the loops over the feet\<close>

lemma foothold_target_support [simp]:
  "foothold_target ops eng (a\<lparr>support_region := m\<rparr>) ph name stance
   = foothold_target ops eng a ph name stance"
  by (simp add: foothold_target_def getRPY_W_def Let_def)

lemma foothold_target_explicit:
  assumes "vadd (com_pos st)
             (fromBaseToWorldFrame ops
                (sx + fst (getFootShift ph name), sy + snd (getFootShift ph name), sz)
                (angular_pos st)) = (wx, wy, wz)"
  shows "foothold_target ops eng st ph name (sx, sy, sz)
         = (wx, wy,
            if isTerrainInformation (terrain eng) then getTerrainHeight (terrain eng) (wx, wy)
            else - (getPendulumHeight ops (cart_table eng) + sz)
                 - (Z (com_pos st) - Z (com_pos (actual_state eng))))"
  using assms by (simp add: foothold_target_def Let_def getRPY_W_def)

lemma support_loop:
  assumes n: "n \<le> length (feet_names eng)"
    and st: "set (take n (feet_names eng)) \<subseteq> dom (stance_posture eng)"
  shows "for_loop 0 n
           (\<lambda>f a. case read_at (feet_names eng) f of
                     Inl e \<Rightarrow> Inl e
                   | Inr name \<Rightarrow>
                       commit_foothold ops eng prev name
                         (if removed name
                          then a\<lparr>support_region := (support_region a)(name := None)\<rparr>
                          else a)) b
         = Inr (b\<lparr>support_region :=
                    updated_support ops eng prev removed b (take n (feet_names eng))\<rparr>)"
proof -
  let ?body = "\<lambda>f a. case read_at (feet_names eng) f of
                     Inl e \<Rightarrow> Inl e
                   | Inr name \<Rightarrow>
                       commit_foothold ops eng prev name
                         (if removed name
                          then a\<lparr>support_region := (support_region a)(name := None)\<rparr>
                          else a)"
  define I where "I = (\<lambda>f a. a = b\<lparr>support_region :=
                    updated_support ops eng prev removed b (take f (feet_names eng))\<rparr>)"
  have init: "I 0 b" by (simp add: I_def updated_support_def)
  have step: "\<exists>t'. ?body j t = Inr t' \<and> I (Suc j) t'" if j: "j < n" and i: "I j t" for j t
  proof -
    let ?name = "feet_names eng ! j"
    have jl: "j < length (feet_names eng)" using j n by simp
    have tk: "take (Suc j) (feet_names eng) = take j (feet_names eng) @ [?name]"
      using jl by (simp add: take_Suc_conv_app_nth)
    have "?name \<in> set (take n (feet_names eng))"
      using j jl by (auto simp: in_set_conv_nth)
    then obtain stance where sp: "stance_posture eng ?name = Some stance"
      using st by blast
    have t: "t = b\<lparr>support_region :=
                    updated_support ops eng prev removed b (take j (feet_names eng))\<rparr>"
      using i by (simp add: I_def)
    show ?thesis
      unfolding I_def tk t
      by (auto simp: read_at_def jl commit_foothold_def sp updated_support_def fun_eq_iff)
  qed
  from for_loop_total[of I 0 b n ?body, OF init] step
  show ?thesis by (auto simp: I_def)
qed

lemma update_support_loop:
  assumes "num_feet eng \<le> length (feet_names eng)"
    and "set (take (num_feet eng) (feet_names eng)) \<subseteq> dom (stance_posture eng)"
  shows "for_loop 0 (num_feet eng) (update_support_foot ops eng control k) b
         = Inr (b\<lparr>support_region :=
                    updated_support ops eng (params control ! (k - 1))
                      (isSwingFoot (phase (params control ! k))) b
                      (take (num_feet eng) (feet_names eng))\<rparr>)"
proof -
  have "update_support_foot ops eng control k
        = (\<lambda>f a. case read_at (feet_names eng) f of
                     Inl e \<Rightarrow> Inl e
                   | Inr name \<Rightarrow>
                       commit_foothold ops eng (params control ! (k - 1)) name
                         (if isSwingFoot (phase (params control ! k)) name
                          then a\<lparr>support_region := (support_region a)(name := None)\<rparr>
                          else a))"
    by (auto simp: fun_eq_iff update_support_foot_def Let_def split: sum.splits)
  then show ?thesis using support_loop[OF assms] by simp
qed

lemma trailing_state_commit:
  assumes "num_feet eng \<le> length (feet_names eng)"
    and "set (take (num_feet eng) (feet_names eng)) \<subseteq> dom (stance_posture eng)"
    and "trajectory \<noteq> []" and "params control \<noteq> []"
  shows "trailing_state ops eng control trajectory
         = Inr ((last trajectory)\<lparr>support_region :=
                    updated_support ops eng (last (params control)) (\<lambda>name. False)
                      (last trajectory) (take (num_feet eng) (feet_names eng))\<rparr>)"
proof -
  have "(\<lambda>f a. case read_at (feet_names eng) f of
                Inl e \<Rightarrow> Inl e
              | Inr name \<Rightarrow> commit_foothold ops eng (last (params control)) name a)
        = (\<lambda>f a. case read_at (feet_names eng) f of
                Inl e \<Rightarrow> Inl e
              | Inr name \<Rightarrow>
                  commit_foothold ops eng (last (params control)) name
                    (if False then a\<lparr>support_region := (support_region a)(name := None)\<rparr>
                     else a))"
    by (auto simp: fun_eq_iff split: sum.splits)
  then show ?thesis
    using support_loop[OF assms(1,2), of ops "last (params control)" "\<lambda>name. False"
            "last trajectory"] assms(3,4)
    by (simp add: trailing_state_def vector_back_def)
qed

section \<open>Facts about the loop over the phases\<close>

lemma commit_foothold_error:
  "commit_foothold ops eng ctrl name a = Inl e \<Longrightarrow> no_back_error e"
  by (auto simp: commit_foothold_def no_back_error_def split: if_splits option.splits)

lemma update_support_foot_error:
  "update_support_foot ops eng control k f a = Inl e \<Longrightarrow> no_back_error e"
  by (auto simp: update_support_foot_def Let_def split: sum.splits
        dest: read_at_error commit_foothold_error)

lemma phase_start_state_error:
  assumes "phase_start_state ops eng state control k trajectory = Inl e"
    and "k = 0 \<or> trajectory \<noteq> []"
  shows "no_back_error e"
proof -
  have loop: "no_back_error e'"
    if "for_loop 0 (num_feet eng) (update_support_foot ops eng control k) b = Inl e'" for b e'
    using for_loop_cases[of "\<lambda>j t. True" 0 b "num_feet eng" "update_support_foot ops eng control k"]
      that
    by (auto dest: update_support_foot_error)
  show ?thesis
    using assms
    by (auto simp: phase_start_state_def vector_back_def split: if_splits dest: loop)
qed

lemma phase_iteration_nonempty:
  "phase_iteration ops state control full k acc = Inr (eng', tr') \<Longrightarrow> tr' \<noteq> []"
  by (cases acc) (auto simp: phase_iteration_def Let_def split: sum.splits if_splits)

lemma phase_iteration_post:
  assumes "k = 0 \<or> tr \<noteq> []"
  shows "case phase_iteration ops state control full k (eng, tr) of
           Inr (eng', tr') \<Rightarrow> same_model eng eng' \<and> tr' \<noteq> []
         | Inl e \<Rightarrow> no_back_error e"
proof (cases "phase_start_state ops eng state control k tr")
  case (Inl e)
  then show ?thesis
    using phase_start_state_error[OF Inl assms] by (simp add: phase_iteration_def)
next
  case (Inr actual)
  show ?thesis
  proof (cases "type (phase (params control ! k)) = STANCE")
    case True
    then show ?thesis
      using Inr stancePreview_post[where ops = ops and eng = eng and tr = "[]"
          and state = actual and ps = "params control ! k" and full = full]
      by (auto simp: phase_iteration_def Let_def split: sum.splits)
  next
    case False
    then show ?thesis
      using Inr flightPreview_post[where ops = ops and eng = eng and tr = "[]"
          and state = actual and ps = "params control ! k" and full = full]
      by (auto simp: phase_iteration_def Let_def split: sum.splits)
  qed
qed

lemma phase_loop_post:
  "case for_loop 0 n (phase_iteration ops state control full) (eng, []) of
     Inr (eng', tr') \<Rightarrow> same_model eng eng' \<and> (0 < n \<longrightarrow> tr' \<noteq> [])
   | Inl e \<Rightarrow> no_back_error e"
proof -
  define I where "I = (\<lambda>(j::nat) (acc :: ('a, 'b) PreviewLocomotion \<times> ReducedBodyTrajectory).
      same_model eng (fst acc) \<and> (0 < j \<longrightarrow> snd acc \<noteq> []))"
  have init: "I 0 (eng, [])" by (simp add: I_def)
  have step: "I (Suc j) t'"
    if i: "I j t" and r: "phase_iteration ops state control full j t = Inr t'" for j t t'
  proof -
    obtain e1 tr1 where t: "t = (e1, tr1)" by (cases t)
    obtain e2 tr2 where t': "t' = (e2, tr2)" by (cases t')
    have sm: "same_model eng e1" and ne: "j = 0 \<or> tr1 \<noteq> []"
      using i by (auto simp: I_def t)
    have "same_model e1 e2 \<and> tr2 \<noteq> []"
      using phase_iteration_post[OF ne, where ops = ops and state = state
          and control = control and full = full and eng = e1] r
      by (simp add: t t')
    then show ?thesis
      using same_model_trans[OF sm] by (simp add: I_def t')
  qed
  have err: "no_back_error e"
    if i: "I j t" and r: "phase_iteration ops state control full j t = Inl e" for j t e
  proof -
    obtain e1 tr1 where t: "t = (e1, tr1)" by (cases t)
    have ne: "j = 0 \<or> tr1 \<noteq> []"
      using i by (auto simp: I_def t)
    show ?thesis
      using phase_iteration_post[OF ne, where ops = ops and state = state
          and control = control and full = full and eng = e1] r
      by (simp add: t)
  qed
  have fl: "case for_loop 0 n (phase_iteration ops state control full) (eng, []) of
              Inr s' \<Rightarrow> I (max 0 n) s'
            | Inl e \<Rightarrow> (\<exists>j t. 0 \<le> j \<and> j < n \<and> I j t
                          \<and> phase_iteration ops state control full j t = Inl e)"
    by (rule for_loop_cases[of I 0 "(eng, [])" n "phase_iteration ops state control full"],
        rule init, rule step)
  show ?thesis
  proof (cases "for_loop 0 n (phase_iteration ops state control full) (eng, [])")
    case (Inl e)
    then obtain j t where "I j t" "phase_iteration ops state control full j t = Inl e"
      using fl by auto
    then show ?thesis using Inl err by simp
  next
    case (Inr res)
    then have "I (max 0 n) res" using fl by simp
    then show ?thesis using Inr by (cases res) (simp add: I_def)
  qed
qed

lemma trailing_state_error:
  assumes "trailing_state ops eng control trajectory = Inl e"
    and "trajectory \<noteq> []" and "params control \<noteq> []"
  shows "no_back_error e"
proof -
  let ?body = "\<lambda>f a. case read_at (feet_names eng) f of
                 Inl e \<Rightarrow> Inl e
               | Inr name \<Rightarrow> commit_foothold ops eng (last (params control)) name a"
  have body: "no_back_error e'" if "?body f a = Inl e'" for f a e'
    using that by (auto split: sum.splits dest: read_at_error commit_foothold_error)
  have "for_loop 0 (num_feet eng) ?body (last trajectory) = Inl e"
    using assms by (simp add: trailing_state_def vector_back_def)
  then show ?thesis
    using for_loop_cases[of "\<lambda>j t. True" 0 "last trajectory" "num_feet eng" ?body]
    by (auto dest: body)
qed

subsection \<open>Sequences of STANCE phases return\<close>

lemma length_resize [simp]: "length (resize n d xs) = n"
  by (auto simp: resize_def)

lemma stance_loop_total:
  assumes "\<forall>j. k \<le> j \<and> j < n \<longrightarrow> j - idx < length tr0"
  shows "\<exists>r. for_loop k n (stance_sample ops state ps full idx N) (eng0, tr0, cs0) = Inr r"
proof -
  define I where "I = (\<lambda>(j::nat) (acc :: ('a, 'b) PreviewLocomotion \<times> ReducedBodyTrajectory \<times> ReducedBodyState).
      length (fst (snd acc)) = length tr0)"
  have init: "I k (eng0, tr0, cs0)" by (simp add: I_def)
  have step: "\<exists>t'. stance_sample ops state ps full idx N j t = Inr t' \<and> I (Suc j) t'"
    if "k \<le> j" "j < n" "I j t" for j t
  proof -
    obtain e tr cs where t: "t = (e, tr, cs)" by (cases t)
    have "j - idx < length tr" using that assms by (simp add: I_def t)
    then show ?thesis
      using that(3) by (simp add: t stance_sample_def Let_def write_at_def I_def split_beta)
  qed
  from for_loop_total[of I k "(eng0, tr0, cs0)" n "stance_sample ops state ps full idx N",
      OF init step]
  show ?thesis by blast
qed

lemma sample_count_nonneg:
  assumes "0 < st" "0 \<le> d" "\<lfloor>double_div d st\<rfloor> + 1 < 2 ^ 32"
  shows "sample_count d st = Inr (nat \<lfloor>double_div d st\<rfloor>)"
    and "succ_u32 (nat \<lfloor>double_div d st\<rfloor>) = nat \<lfloor>double_div d st\<rfloor> + 1"
proof -
  have "0 \<le> d / st" using assms by simp
  then have "0 \<le> double_div d st"
    unfolding double_div_def by (rule round_to_double_nonneg)
  then have q: "0 \<le> \<lfloor>double_div d st\<rfloor>" by linarith
  then show "sample_count d st = Inr (nat \<lfloor>double_div d st\<rfloor>)"
    using assms by (simp add: sample_count_def Let_def)
  have "nat \<lfloor>double_div d st\<rfloor> + 1 < 2 ^ 32" using assms(3) q by (simp add: nat_less_iff)
  then show "succ_u32 (nat \<lfloor>double_div d st\<rfloor>) = nat \<lfloor>double_div d st\<rfloor> + 1"
    by (simp add: succ_u32_def)
qed

lemma stancePreview_total:
  assumes pos: "0 < sample_time eng" and d0: "0 \<le> duration ps"
    and rng: "\<lfloor>double_div (duration ps) (sample_time eng)\<rfloor> + 1 < 2 ^ 32"
    and feet_ok: "set (feet (phase ps)) \<subseteq> dom (stance_posture eng)"
  shows "\<exists>r. stancePreview ops eng tr state ps full = Inr r"
proof (cases "full \<and> duration ps < sample_time eng")
  case True
  then show ?thesis by (simp add: stancePreview_def)
next
  case guard: False
  let ?N = "nat \<lfloor>double_div (duration ps) (sample_time eng)\<rfloor>"
  let ?eng1 = "eng\<lparr>cart_table := initResponse ops (cart_table eng) state (duration ps, cop_shift ps)\<rparr>"
  note sc = sample_count_nonneg[OF pos d0 rng]
  show ?thesis
  proof (cases full)
    case True
    obtain eng2 where i2: "initSwing ops ?eng1 state ps = Inr eng2"
      using initSwing_total[of ps ?eng1 ops state] feet_ok by auto
    have "\<forall>j. 0 \<le> j \<and> j < ?N + 1 \<longrightarrow>
            j - 0 < length (resize (?N + 1) (default_state ops) tr)"
      by simp
    from stance_loop_total[OF this, of ops state ps True ?N eng2 state]
    obtain r where "for_loop 0 (?N + 1) (stance_sample ops state ps True 0 ?N)
        (eng2, resize (?N + 1) (default_state ops) tr, state) = Inr r" by blast
    then show ?thesis
      using guard True sc i2 by (cases r) (simp add: stancePreview_def Let_def)
  next
    case False
    have "\<forall>j. ?N \<le> j \<and> j < ?N + 1 \<longrightarrow>
            j - ?N < length (resize 1 (default_state ops) tr)"
      by auto
    from stance_loop_total[OF this, of ops state ps False ?N ?eng1 state]
    obtain r where "for_loop ?N (?N + 1) (stance_sample ops state ps False ?N ?N)
        (?eng1, resize 1 (default_state ops) tr, state) = Inr r" by blast
    then show ?thesis
      using False sc by (cases r) (simp add: stancePreview_def Let_def)
  qed
qed

lemma phase_start_state_total:
  assumes "well_formed eng" and "k = 0 \<or> trajectory \<noteq> []"
  shows "\<exists>a. phase_start_state ops eng state control k trajectory = Inr a"
  using assms update_support_loop[of eng ops control k "last trajectory"]
  by (auto simp: phase_start_state_def vector_back_def well_formed_def)

lemma phase_iteration_total:
  assumes wf: "well_formed eng" and ok: "stance_phase_ok eng (params control ! k)"
    and ne: "k = 0 \<or> tr \<noteq> []"
  shows "\<exists>r. phase_iteration ops state control full k (eng, tr) = Inr r"
proof -
  obtain a where a: "phase_start_state ops eng state control k tr = Inr a"
    using phase_start_state_total[OF wf ne] by blast
  obtain r where r: "stancePreview ops eng [] a (params control ! k) full = Inr r"
    using stancePreview_total[of eng "params control ! k" ops "[]" a full] wf ok
    by (auto simp: well_formed_def stance_phase_ok_def)
  show ?thesis
    using a r ok by (cases r) (simp add: phase_iteration_def Let_def stance_phase_ok_def)
qed

lemma well_formed_same_model:
  "same_model eng eng' \<Longrightarrow> well_formed eng' = well_formed eng"
  by (simp add: well_formed_def same_modelD)

lemma stance_phase_ok_same_model:
  "same_model eng eng' \<Longrightarrow> stance_phase_ok eng' p = stance_phase_ok eng p"
  by (simp add: stance_phase_ok_def same_modelD)

lemma phase_loop_total:
  assumes wf: "well_formed eng"
    and ok: "\<forall>p \<in> set (params control). stance_phase_ok eng p"
  shows "\<exists>eng2 body. for_loop 0 (length (params control))
            (phase_iteration ops state control full) (eng, []) = Inr (eng2, body)"
proof -
  define I where "I = (\<lambda>(j::nat) (acc :: ('a, 'b) PreviewLocomotion \<times> ReducedBodyTrajectory).
      same_model eng (fst acc) \<and> (0 < j \<longrightarrow> snd acc \<noteq> []))"
  have init: "I 0 (eng, [])" by (simp add: I_def)
  have step: "\<exists>t'. phase_iteration ops state control full j t = Inr t' \<and> I (Suc j) t'"
    if "0 \<le> j" and j: "j < length (params control)" and i: "I j t" for j t
  proof -
    obtain e1 tr1 where t: "t = (e1, tr1)" by (cases t)
    have sm: "same_model eng e1" and ne: "j = 0 \<or> tr1 \<noteq> []"
      using i by (auto simp: I_def t)
    have wf1: "well_formed e1" using wf sm by (simp add: well_formed_same_model)
    have "stance_phase_ok eng (params control ! j)" using ok j by simp
    then have ok1: "stance_phase_ok e1 (params control ! j)"
      using sm by (simp add: stance_phase_ok_same_model)
    obtain r where r: "phase_iteration ops state control full j (e1, tr1) = Inr r"
      using phase_iteration_total[OF wf1 ok1 ne] by blast
    obtain e2 tr2 where r2: "r = (e2, tr2)" by (cases r)
    have "same_model e1 e2 \<and> tr2 \<noteq> []"
      using phase_iteration_post[OF ne, where ops = ops and state = state
          and control = control and full = full and eng = e1] r
      by (simp add: r2)
    then have "I (Suc j) r"
      using same_model_trans[OF sm] by (simp add: I_def r2)
    then show ?thesis using r t by blast
  qed
  from for_loop_total[of I 0 "(eng, [])" "length (params control)"
      "phase_iteration ops state control full", OF init step]
  obtain s' where "for_loop 0 (length (params control))
      (phase_iteration ops state control full) (eng, []) = Inr s'" by blast
  then show ?thesis by (cases s') auto
qed

section \<open>Engines that differ in the swing context only\<close>

lemma same_but_swing_refl: "same_but_swing eng eng"
  by (simp add: same_but_swing_def)

lemma same_but_swing_trans:
  "same_but_swing a b \<Longrightarrow> same_but_swing b c \<Longrightarrow> same_but_swing a c"
  by (cases a; cases b; cases c) (auto simp: same_but_swing_def)

lemma same_but_swingD:
  assumes "same_but_swing eng eng'"
  shows "robot_model eng' = robot_model eng" "sample_time eng' = sample_time eng"
    "gravity eng' = gravity eng" "num_feet eng' = num_feet eng"
    "feet_names eng' = feet_names eng" "step_height eng' = step_height eng"
    "stance_posture eng' = stance_posture eng" "actual_state eng' = actual_state eng"
    "terrain eng' = terrain eng" "cart_table eng' = cart_table eng"
  using assms by (cases eng; cases eng'; simp add: same_but_swing_def)+

lemma same_but_swing_cart_table:
  "same_but_swing e1 e2 \<Longrightarrow> same_but_swing (e1\<lparr>cart_table := ct\<rparr>) (e2\<lparr>cart_table := ct\<rparr>)"
  by (cases e1; cases e2) (auto simp: same_but_swing_def)

lemma swing_shifts_same:
  "same_but_swing e1 e2 \<Longrightarrow>
   swing_shifts ops e2 ts ph names acc = swing_shifts ops e1 ts ph names acc"
  by (induction names arbitrary: acc)
     (auto simp: same_but_swingD Let_def split: option.splits)

lemma initSwing_same:
  assumes "same_but_swing e1 e2"
  shows "initSwing ops e2 state ps = initSwing ops e1 state ps"
proof -
  have a: "same_but_swing (e1\<lparr>phase_state := state\<rparr>) (e2\<lparr>phase_state := state\<rparr>)"
    using assms by (cases e1; cases e2) (auto simp: same_but_swing_def)
  have b: "e2\<lparr>phase_state := state, swing_params := sp, feet_spline_generator := g\<rparr>
         = e1\<lparr>phase_state := state, swing_params := sp, feet_spline_generator := g\<rparr>" for sp g
    using assms by (cases e1; cases e2) (auto simp: same_but_swing_def)
  show ?thesis
    unfolding initSwing_def Let_def
    by (simp add: swing_shifts_same[OF a] same_but_swingD[OF assms] b
          cong: option.case_cong sum.case_cong)
qed

lemma foothold_target_same:
  "same_but_swing e1 e2 \<Longrightarrow>
   foothold_target ops e2 st ph name stance = foothold_target ops e1 st ph name stance"
  by (simp add: foothold_target_def same_but_swingD Let_def)

lemma commit_foothold_same:
  "same_but_swing e1 e2 \<Longrightarrow>
   commit_foothold ops e2 ctrl name a = commit_foothold ops e1 ctrl name a"
  by (auto simp: commit_foothold_def same_but_swingD foothold_target_same split: option.splits)

lemma phase_start_state_same:
  assumes "same_but_swing e1 e2"
  shows "phase_start_state ops e2 state control k tr = phase_start_state ops e1 state control k tr"
proof -
  have "update_support_foot ops e2 control k = update_support_foot ops e1 control k"
    by (auto simp: fun_eq_iff update_support_foot_def same_but_swingD[OF assms]
          commit_foothold_same[OF assms] Let_def split: sum.splits)
  then show ?thesis
    by (auto simp: phase_start_state_def same_but_swingD[OF assms] split: sum.splits)
qed

lemma trailing_state_same:
  assumes "same_but_swing e1 e2"
  shows "trailing_state ops e2 control tr = trailing_state ops e1 control tr"
proof -
  have "(\<lambda>f a. case read_at (feet_names e2) f of
                Inl e \<Rightarrow> Inl e
              | Inr name \<Rightarrow> commit_foothold ops e2 end_control name a)
        = (\<lambda>f a. case read_at (feet_names e1) f of
                Inl e \<Rightarrow> Inl e
              | Inr name \<Rightarrow> commit_foothold ops e1 end_control name a)" for end_control
    by (auto simp: fun_eq_iff same_but_swingD[OF assms] commit_foothold_same[OF assms]
          split: sum.splits)
  then show ?thesis
    by (auto simp: trailing_state_def same_but_swingD[OF assms] split: sum.splits)
qed

lemma preview_rel_refl: "rel_sum (=) (rel_prod same_but_swing (=)) r r"
  by (cases r) (auto simp: same_but_swing_refl)

lemma stance_sample_rel:
  assumes "same_but_swing e1 e2"
  shows "rel_sum (=) (rel_prod same_but_swing (=))
           (stance_sample ops state ps False idx N k (e1, acc))
           (stance_sample ops state ps False idx N k (e2, acc))"
  using assms
  by (cases acc)
     (auto simp: stance_sample_def Let_def same_but_swingD[OF assms] split: sum.splits)

lemma flight_sample_rel:
  assumes "same_but_swing e1 e2"
  shows "rel_sum (=) (rel_prod same_but_swing (=))
           (flight_sample ops state ps False idx N k (e1, tr))
           (flight_sample ops state ps False idx N k (e2, tr))"
  using assms
  by (auto simp: flight_sample_def Let_def same_but_swingD[OF assms] split: sum.splits)

lemma stancePreview_full_unfold:
  assumes "\<not> duration ps < sample_time e"
    and "sample_count (duration ps) (sample_time e) = Inr N"
  shows "stancePreview ops e tr state ps True
         = (case initSwing ops
                   (e\<lparr>cart_table := initResponse ops (cart_table e) state
                                       (duration ps, cop_shift ps)\<rparr>) state ps of
              Inl x \<Rightarrow> Inl x
            | Inr eng2 \<Rightarrow>
                (case for_loop 0 (succ_u32 N) (stance_sample ops state ps True 0 N)
                        (eng2, resize (succ_u32 N) (default_state ops) tr, state) of
                   Inl x \<Rightarrow> Inl x
                 | Inr (eng4, trajectory2, current_state) \<Rightarrow> Inr (eng4, trajectory2)))"
  using assms by (simp add: stancePreview_def Let_def split: sum.splits)

lemma stancePreview_summary_unfold:
  assumes "sample_count (duration ps) (sample_time e) = Inr N"
  shows "stancePreview ops e tr state ps False
         = (case for_loop N (succ_u32 N) (stance_sample ops state ps False N N)
                   (e\<lparr>cart_table := initResponse ops (cart_table e) state
                                       (duration ps, cop_shift ps)\<rparr>,
                    resize 1 (default_state ops) tr, state) of
              Inl x \<Rightarrow> Inl x
            | Inr (eng4, trajectory2, current_state) \<Rightarrow> Inr (eng4, trajectory2))"
  using assms by (simp add: stancePreview_def Let_def split: sum.splits)

lemma flightPreview_full_unfold:
  assumes "\<not> duration ps < sample_time e"
    and "sample_count (duration ps) (sample_time e) = Inr N"
  shows "flightPreview ops e tr state ps True
         = (case initSwing ops e state ps of
              Inl x \<Rightarrow> Inl x
            | Inr eng2 \<Rightarrow>
                for_loop 0 (succ_u32 N) (flight_sample ops state ps True 0 N)
                  (eng2, resize N (default_state ops) tr))"
  using assms by (simp add: flightPreview_def split: sum.splits)

lemma flightPreview_summary_unfold:
  assumes "sample_count (duration ps) (sample_time e) = Inr N"
  shows "flightPreview ops e tr state ps False
         = for_loop N (succ_u32 N) (flight_sample ops state ps False N N)
             (e, resize 1 (default_state ops) tr)"
  using assms by (simp add: flightPreview_def)

lemma stancePreview_rel:
  assumes "same_but_swing e1 e2"
  shows "rel_sum (=) (rel_prod same_but_swing (=))
           (stancePreview ops e1 tr state ps full) (stancePreview ops e2 tr state ps full)"
proof (cases "full \<and> duration ps < sample_time e1")
  case True
  then show ?thesis
    using assms by (simp add: stancePreview_def same_but_swingD[OF assms])
next
  case guard: False
  note d = same_but_swingD[OF assms]
  let ?ct = "initResponse ops (cart_table e1) state (duration ps, cop_shift ps)"
  show ?thesis
  proof (cases "sample_count (duration ps) (sample_time e1)")
    case (Inl e)
    then show ?thesis using guard by (auto simp: stancePreview_def Let_def d)
  next
    case (Inr N)
    show ?thesis
    proof (cases full)
      case True
      have i: "initSwing ops (e2\<lparr>cart_table := ?ct\<rparr>) state ps
               = initSwing ops (e1\<lparr>cart_table := ?ct\<rparr>) state ps"
        using initSwing_same[OF same_but_swing_cart_table[OF assms]] .
      have "stancePreview ops e2 tr state ps True = stancePreview ops e1 tr state ps True"
        using guard True Inr
        by (simp add: stancePreview_full_unfold[where N = N] d i)
      then show ?thesis using True by (simp add: preview_rel_refl)
    next
      case False
      have q: "rel_prod same_but_swing (=)
                 (e1\<lparr>cart_table := ?ct\<rparr>, resize 1 (default_state ops) tr, state)
                 (e2\<lparr>cart_table := ?ct\<rparr>, resize 1 (default_state ops) tr, state)"
        using same_but_swing_cart_table[OF assms] by simp
      have "rel_sum (=) (rel_prod same_but_swing (=))
              (for_loop N (succ_u32 N) (stance_sample ops state ps False N N)
                 (e1\<lparr>cart_table := ?ct\<rparr>, resize 1 (default_state ops) tr, state))
              (for_loop N (succ_u32 N) (stance_sample ops state ps False N N)
                 (e2\<lparr>cart_table := ?ct\<rparr>, resize 1 (default_state ops) tr, state))"
      proof (rule for_loop_rel[where Q = "rel_prod same_but_swing (=)"])
        show "rel_prod same_but_swing (=)
                 (e1\<lparr>cart_table := ?ct\<rparr>, resize 1 (default_state ops) tr, state)
                 (e2\<lparr>cart_table := ?ct\<rparr>, resize 1 (default_state ops) tr, state)"
          by (rule q)
      next
        fix j and t1 t2 :: "('a, 'b) PreviewLocomotion \<times> ReducedBodyTrajectory \<times> ReducedBodyState"
        assume "rel_prod same_but_swing (=) t1 t2"
        then show "rel_sum (=) (rel_prod same_but_swing (=))
                     (stance_sample ops state ps False N N j t1)
                     (stance_sample ops state ps False N N j t2)"
          using stance_sample_rel[of "fst t1" "fst t2" ops state ps N N j "snd t1"]
          by (cases t1; cases t2) auto
      qed
      then show ?thesis
        using False Inr
        by (auto simp: stancePreview_summary_unfold[where N = N] d
              elim!: rel_sum.cases)
    qed
  qed
qed

lemma flightPreview_rel:
  assumes "same_but_swing e1 e2"
  shows "rel_sum (=) (rel_prod same_but_swing (=))
           (flightPreview ops e1 tr state ps full) (flightPreview ops e2 tr state ps full)"
proof (cases "full \<and> duration ps < sample_time e1")
  case True
  then show ?thesis
    using assms by (simp add: flightPreview_def same_but_swingD[OF assms])
next
  case guard: False
  note d = same_but_swingD[OF assms]
  show ?thesis
  proof (cases "sample_count (duration ps) (sample_time e1)")
    case (Inl e)
    then show ?thesis using guard by (auto simp: flightPreview_def d)
  next
    case (Inr N)
    show ?thesis
    proof (cases full)
      case True
      have "flightPreview ops e2 tr state ps True = flightPreview ops e1 tr state ps True"
        using guard True Inr
        by (simp add: flightPreview_full_unfold[where N = N] d initSwing_same[OF assms])
      then show ?thesis using True by (simp add: preview_rel_refl)
    next
      case False
      have q: "rel_prod same_but_swing (=)
                 (e1, resize 1 (default_state ops) tr) (e2, resize 1 (default_state ops) tr)"
        using assms by simp
      have "rel_sum (=) (rel_prod same_but_swing (=))
              (for_loop N (succ_u32 N) (flight_sample ops state ps False N N)
                 (e1, resize 1 (default_state ops) tr))
              (for_loop N (succ_u32 N) (flight_sample ops state ps False N N)
                 (e2, resize 1 (default_state ops) tr))"
      proof (rule for_loop_rel[where Q = "rel_prod same_but_swing (=)"])
        show "rel_prod same_but_swing (=)
                 (e1, resize 1 (default_state ops) tr) (e2, resize 1 (default_state ops) tr)"
          by (rule q)
      next
        fix j and t1 t2 :: "('a, 'b) PreviewLocomotion \<times> ReducedBodyTrajectory"
        assume "rel_prod same_but_swing (=) t1 t2"
        then show "rel_sum (=) (rel_prod same_but_swing (=))
                     (flight_sample ops state ps False N N j t1)
                     (flight_sample ops state ps False N N j t2)"
          using flight_sample_rel[of "fst t1" "fst t2" ops state ps N N j "snd t1"]
          by (cases t1; cases t2) auto
      qed
      then show ?thesis
        using False Inr by (simp add: flightPreview_summary_unfold[where N = N] d)
    qed
  qed
qed

lemma phase_iteration_rel:
  assumes "same_but_swing e1 e2"
  shows "rel_sum (=) (rel_prod same_but_swing (=))
           (phase_iteration ops state control full k (e1, tr))
           (phase_iteration ops state control full k (e2, tr))"
proof (cases "phase_start_state ops e1 state control k tr")
  case (Inl e)
  then show ?thesis
    by (simp add: phase_iteration_def phase_start_state_same[OF assms])
next
  case (Inr actual)
  let ?pp = "params control ! k"
  have "rel_sum (=) (rel_prod same_but_swing (=))
          (if type (phase ?pp) = STANCE then stancePreview ops e1 [] actual ?pp full
           else flightPreview ops e1 [] actual ?pp full)
          (if type (phase ?pp) = STANCE then stancePreview ops e2 [] actual ?pp full
           else flightPreview ops e2 [] actual ?pp full)"
    using stancePreview_rel[OF assms] flightPreview_rel[OF assms] by simp
  then show ?thesis
    using Inr
    by (auto simp: phase_iteration_def Let_def phase_start_state_same[OF assms]
          elim!: rel_sum.cases)
qed

lemma phase_loop_rel:
  assumes "same_but_swing e1 e2"
  shows "rel_sum (=) (rel_prod same_but_swing (=))
           (for_loop 0 n (phase_iteration ops state control full) (e1, []))
           (for_loop 0 n (phase_iteration ops state control full) (e2, []))"
proof (rule for_loop_rel[where Q = "rel_prod same_but_swing (=)"])
  show "rel_prod same_but_swing (=) (e1, []) (e2, [])" using assms by simp
next
  fix j and t1 t2 :: "('a, 'b) PreviewLocomotion \<times> ReducedBodyTrajectory"
  assume "rel_prod same_but_swing (=) t1 t2"
  then show "rel_sum (=) (rel_prod same_but_swing (=))
               (phase_iteration ops state control full j t1)
               (phase_iteration ops state control full j t2)"
    using phase_iteration_rel[of "fst t1" "fst t2" ops state control full j "snd t1"]
    by (cases t1; cases t2) auto
qed

section \<open>Facts about reading the phases\<close>

lemma read_phases_abort:
  assumes kn: "k < N"
    and before: "\<forall>j<k. \<exists>q. read_phase yaml names j (resize N d (params control) ! j) = Inr q"
    and at: "read_phase yaml names k (resize N d (params control) ! k) = Inl (pk, msg)"
  shows "\<exists>control'.
           for_loop 0 N (read_phase_step yaml names)
             (control\<lparr>params := resize N d (params control)\<rparr>) = Inl (control', msg)
         \<and> length (params control') = N
         \<and> (\<forall>j<k. read_phase yaml names j (resize N d (params control) ! j)
                     = Inr (params control' ! j))
         \<and> params control' ! k = pk
         \<and> (\<forall>j. k < j \<and> j < N \<longrightarrow> params control' ! j = resize N d (params control) ! j)"
proof -
  let ?R = "resize N d (params control)"
  let ?c1 = "control\<lparr>params := ?R\<rparr>"
  define I where "I = (\<lambda>j (c :: PreviewControl).
      length (params c) = N
      \<and> (\<forall>i<j. read_phase yaml names i (?R ! i) = Inr (params c ! i))
      \<and> (\<forall>i. j \<le> i \<and> i < N \<longrightarrow> params c ! i = ?R ! i))"
  have init: "I 0 ?c1" by (simp add: I_def)
  have step: "\<exists>t'. read_phase_step yaml names j t = Inr t' \<and> I (Suc j) t'"
    if jk: "j < k" and ij: "I j t" for j t
  proof -
    have len: "length (params t) = N" and pj: "params t ! j = ?R ! j"
      using jk ij kn by (auto simp: I_def)
    obtain q where q: "read_phase yaml names j (?R ! j) = Inr q"
      using before jk by blast
    have "I (Suc j) (t\<lparr>params := (params t)[j := q]\<rparr>)"
      using ij kn jk q
      by (auto simp: I_def nth_list_update less_Suc_eq)
    then show ?thesis by (simp add: read_phase_step_def pj q)
  qed
  have "\<exists>s'. for_loop 0 k (read_phase_step yaml names) ?c1 = Inr s' \<and> I (max 0 k) s'"
    by (rule for_loop_total[of I 0 ?c1 k "read_phase_step yaml names"], rule init, rule step)
  then obtain s' where r: "for_loop 0 k (read_phase_step yaml names) ?c1 = Inr s'"
    and i: "I k s'" by auto
  have pk: "params s' ! k = ?R ! k" using i kn by (simp add: I_def)
  have last_step: "read_phase_step yaml names k s'
                   = Inl (s'\<lparr>params := (params s')[k := pk]\<rparr>, msg)"
    by (simp add: read_phase_step_def pk at)
  have "for_loop 0 N (read_phase_step yaml names) ?c1
        = for_loop k N (read_phase_step yaml names) s'"
    using for_loop_split[of 0 k N "read_phase_step yaml names" ?c1] kn
    by (simp only: r sum.case le0 less_imp_le)
  also have "\<dots> = Inl (s'\<lparr>params := (params s')[k := pk]\<rparr>, msg)"
    using last_step kn by (simp add: for_loop_step)
  finally have "for_loop 0 N (read_phase_step yaml names) ?c1
                = Inl (s'\<lparr>params := (params s')[k := pk]\<rparr>, msg)" .
  moreover have "length (params (s'\<lparr>params := (params s')[k := pk]\<rparr>)) = N"
    using i by (simp add: I_def)
  moreover have "\<forall>j<k. read_phase yaml names j (?R ! j)
                     = Inr (params (s'\<lparr>params := (params s')[k := pk]\<rparr>) ! j)"
    using i by (simp add: I_def)
  moreover have "params (s'\<lparr>params := (params s')[k := pk]\<rparr>) ! k = pk"
    using i kn by (simp add: I_def)
  moreover have "\<forall>j. k < j \<and> j < N \<longrightarrow>
                  params (s'\<lparr>params := (params s')[k := pk]\<rparr>) ! j = ?R ! j"
    using i by (simp add: I_def)
  ultimately show ?thesis by blast
qed

lemma to_string_digit: "n < 10 \<Longrightarrow> to_string n = [digit n]"
  by (subst to_string.simps) simp

lemma phase_ns_small [simp]:
  "phase_ns 0 = [''preview_sequence'', ''preview_control'', ''phase_0'']"
  "phase_ns 1 = [''preview_sequence'', ''preview_control'', ''phase_1'']"
  "phase_ns (Suc 0) = [''preview_sequence'', ''preview_control'', ''phase_1'']"
  by (simp_all add: phase_ns_def to_string_digit digit_def)

section \<open>Facts about the energy loop\<close>

lemma vadd_assoc: "vadd (vadd a b) c = vadd a (vadd b c)"
  by (cases a; cases b; cases c) simp

lemma vadd_vzero [simp]: "vadd a vzero = a" "vadd vzero a = a"
  by (cases a; simp add: vzero_def)+

lemma energy_loop_from:
  "k \<le> length (params control) \<Longrightarrow>
   for_loop k (length (params control)) (energy_iteration ops control) (ct, acc, s)
   = (case energy_by_phase ops ct s (drop k (params control)) of
        (e, ct', s') \<Rightarrow> Inr (ct', vadd acc e, s'))"
proof (induction "length (params control) - k" arbitrary: k ct acc s)
  case 0
  then show ?case by (simp add: for_loop_done)
next
  case (Suc n)
  then have lt: "k < length (params control)" by simp
  then have dr: "drop k (params control) = params control ! k # drop (Suc k) (params control)"
    by (simp add: Cons_nth_drop_Suc)
  have n: "n = length (params control) - Suc k" using Suc.hyps(2) by simp
  have le: "Suc k \<le> length (params control)" using lt by simp
  note IH = Suc.hyps(1)[OF n le]
  show ?case
    by (cases "type (phase (params control ! k))")
       (simp_all add: for_loop_step[OF lt] energy_iteration_def Let_def dr IH
          split: prod.splits add: vadd_assoc)
qed

lemma energy_loop_by_phase:
  "energy_loop ops ct state control
   = (case energy_by_phase ops ct state (params control) of (e, ct', s') \<Rightarrow> Inr (ct', e, s'))"
  using energy_loop_from[of 0 control ops ct vzero state]
  by (simp add: energy_loop_def split: prod.splits)

section \<open>Facts about the reference instance\<close>

lemma ref_engine_sel [simp]:
  "robot_model (ref_engine st) = True" "sample_time (ref_engine st) = st"
  "num_feet (ref_engine st) = 2" "feet_names (ref_engine st) = [''LF'', ''RF'']"
  "gravity (ref_engine st) = 9.81" "step_height (ref_engine st) = 0.1"
  "stance_posture (ref_engine st) = [''LF'' \<mapsto> (0.3, 0.2, - 0.5), ''RF'' \<mapsto> (0.3, - 0.2, - 0.5)]"
  "isTerrainInformation (terrain (ref_engine st)) = False"
  "cart_table (ref_engine st) = (zero_state, (0, (0, 0, 0)))"
  "actual_state (ref_engine st) = zero_state"
  by (simp_all add: ref_engine_def)

lemma stance_params_sel [simp]:
  "duration (stance_params d fs) = d" "cop_shift (stance_params d fs) = (0.01, 0, 0)"
  "type (phase (stance_params d fs)) = STANCE" "feet (phase (stance_params d fs)) = fs"
  "swing_feet (phase (stance_params d fs)) = set fs"
  "feet_shift (phase (stance_params d fs)) = map_of (map (\<lambda>name. (name, (0.1, 0))) fs)"
  by (simp_all add: stance_params_def)

lemma flight_params_sel [simp]:
  "duration (flight_params d) = d" "type (phase (flight_params d)) = FLIGHT"
  "feet (phase (flight_params d)) = []" "swing_feet (phase (flight_params d)) = {}"
  by (simp_all add: flight_params_def)

lemma ref_ops_sel [simp]:
  "initResponse ref_ops ct s p = (s, p)"
  "computeResponse ref_ops ct s t =
     s\<lparr>time := t,
       com_pos := vadd (com_pos (fst ct)) (vscale (t - time (fst ct)) (com_vel (fst ct))),
       com_vel := com_vel (fst ct)\<rparr>"
  "computeSystemEnergy ref_ops ct s p = (vscale (fst p) (com_vel s), (s, p))"
  "getPendulumHeight ref_ops ct = 0.5"
  "default_generator ref_ops = (0, (0, 0, 0), (0, 0, 0), (0, 0))"
  "setParameters ref_ops g t0 p0 p1 sp = (t0, p0, p1, sp)"
  "fromBaseToWorldFrame ref_ops v rpy = v"
  "fromWorldToBaseFrame ref_ops v rpy = v"
  "default_state ref_ops = zero_state"
  "default_params ref_ops = flight_params 0"
  by (simp_all add: ref_ops_def)

lemma ref_state_sel [simp]:
  "time ref_state = 0" "com_pos ref_state = (0, 0, 0.5)" "com_vel ref_state = (0.1, 0, 0)"
  "angular_pos ref_state = (0, 0, 0)"
  by (simp_all add: ref_state_def)

lemma started_engine_sel [simp]:
  "robot_model (started_engine st) = True" "sample_time (started_engine st) = st"
  "num_feet (started_engine st) = 2" "feet_names (started_engine st) = [''LF'', ''RF'']"
  "stance_posture (started_engine st) = [''LF'' \<mapsto> (0.3, 0.2, - 0.5), ''RF'' \<mapsto> (0.3, - 0.2, - 0.5)]"
  "isTerrainInformation (terrain (started_engine st)) = False"
  "cart_table (started_engine st) = (zero_state, (0, (0, 0, 0)))"
  "actual_state (started_engine st) = ref_state"
  by (simp_all add: started_engine_def ref_engine_def)

lemma lifted_state_sel [simp]:
  "com_pos lifted_state = (0, 0, 0.5)" "angular_pos lifted_state = (0, 0, 0)"
  "support_region lifted_state = [''RF'' \<mapsto> (0.3, - 0.2, 0)]"
  by (simp_all add: lifted_state_def)

lemma two_phase_control_sel [simp]:
  "params (two_phase_control d) = [stance_params 0.4 [''LF''], stance_params d []]"
  by (simp add: two_phase_control_def)

lemma turning_ops_sel [simp]:
  "fromBaseToWorldFrame turning_ops (x, y, z) rpy = (x - Z rpy * y, y + Z rpy * x, z)"
  "getPendulumHeight turning_ops ct = 0.5"
  "initResponse turning_ops ct s p = (s, p)"
  "computeResponse turning_ops ct s t =
     s\<lparr>time := t,
       com_pos := vadd (com_pos (fst ct)) (vscale (t - time (fst ct)) (com_vel (fst ct))),
       com_vel := com_vel (fst ct)\<rparr>"
  "default_state turning_ops = zero_state"
  by (simp_all add: turning_ops_def ref_ops_def)

lemma tilted_state_sel [simp]:
  "time tilted_state = 0" "com_pos tilted_state = (0.2, 0.1, 0.55)"
  "com_vel tilted_state = (0.1, 0, 0.05)" "angular_pos tilted_state = (0, 0, 0.5)"
  "support_region tilted_state = [''RF'' \<mapsto> (0.3, - 0.2, 0)]"
  by (simp_all add: tilted_state_def ref_state_def)

lemma terrain_engine_sel [simp]:
  "robot_model (terrain_engine st) = True" "sample_time (terrain_engine st) = st"
  "num_feet (terrain_engine st) = 2" "feet_names (terrain_engine st) = [''LF'', ''RF'']"
  "stance_posture (terrain_engine st)
     = [''LF'' \<mapsto> (0.3, 0.2, - 0.5), ''RF'' \<mapsto> (0.3, - 0.2, - 0.5)]"
  "isTerrainInformation (terrain (terrain_engine st)) = True"
  "getTerrainHeight (terrain (terrain_engine st)) xy = 0.1 * fst xy + 0.2 * snd xy"
  "actual_state (terrain_engine st) = ref_state"
  by (simp_all add: terrain_engine_def started_engine_def ref_engine_def)

lemma height_ops_sel [simp]:
  "fromBaseToWorldFrame height_ops (x, y, z) rpy = (x - Z rpy * y, y + Z rpy * x, z)"
  "getPendulumHeight height_ops ct = Z (com_pos (fst ct))"
  "initResponse height_ops ct s p = (s, p)"
  "computeResponse height_ops ct s t =
     s\<lparr>time := t,
       com_pos := vadd (com_pos (fst ct)) (vscale (t - time (fst ct)) (com_vel (fst ct))),
       com_vel := com_vel (fst ct)\<rparr>"
  "default_state height_ops = zero_state"
  by (simp_all add: height_ops_def turning_ops_def ref_ops_def)

lemma double_div_ref [simp]:
  "double_div (1 / 2) (1 / 10) = 5" "double_div (2 / 5) (1 / 10) = 4"
  "double_div (1 / 10) (1 / 10) = 1"
  unfolding double_div_def round_to_double_def Let_def
  by (simp_all add: binary_exponent_numeral round_half_even_def)

lemma double_div_doubles:
  "double_div (1 / 2) double_tenth = 5"
  "\<lfloor>double_div double_three_tenths double_tenth\<rfloor> = 2"
  unfolding double_div_def round_to_double_def Let_def double_tenth_def double_three_tenths_def
  by (simp_all add: binary_exponent_numeral round_half_even_def)

section \<open>Sampling of a STANCE phase\<close>

text \<open>
  Claim C1. A STANCE phase previewed in full mode with a duration of at least the sample
  time returns, and its phase trajectory holds \<open>num_samples\<close> regular samples at the
  times \<open>start + sample_time\<close>, \<open>start + 2 * sample_time\<close>, ... followed by one last
  sample pinned at \<open>start + duration\<close>, whether or not the duration is a multiple of
  the sample time. Here \<open>num_samples\<close> is the floor of \<open>duration / sample_time\<close> as
  the code computes it, that is of the quotient rounded to a double. The cart-table
  model is assumed to answer for the time it is asked; the sample time is positive, the
  sample count fits an unsigned 32-bit integer and the feet of the phase have a nominal
  stance position. With a duration of 0.5 and a sample time of 0.1 these are 6 samples,
  the last at 0.5 (the instances below).
\<close>

theorem stancePreview_full_samples:
  assumes "\<forall>ct s. time (computeResponse ops ct s (time s)) = time s"
    and "0 < sample_time eng"
    and "sample_time eng \<le> duration ps"
    and "\<lfloor>double_div (duration ps) (sample_time eng)\<rfloor> + 1 < 2 ^ 32"
    and "set (feet (phase ps)) \<subseteq> dom (stance_posture eng)"
  shows "\<exists>eng' traj.
           stancePreview ops eng trajectory state ps True = Inr (eng', traj)
         \<and> length traj = nat \<lfloor>double_div (duration ps) (sample_time eng)\<rfloor> + 1
         \<and> (\<forall>k < nat \<lfloor>double_div (duration ps) (sample_time eng)\<rfloor>.
               time (traj ! k) = time state + sample_time eng * real (k + 1))
         \<and> time (last traj) = time state + duration ps"
  using assms by (rule stancePreview_full_run)

text \<open>
  Three runs: duration 0.5 and sample time 0.1 as decimal numbers; the same with the
  sample time the double nearest to 0.1 (the quotient of the two doubles is below 5 and
  rounds to 5); and the doubles nearest to 0.3 and 0.1, whose quotient rounds to a
  double below 3, so that the phase has two regular samples and the pinned one.
\<close>

theorem stancePreview_full_samples_witness:
  "(\<exists>eng' traj.
      stancePreview ref_ops (ref_engine 0.1) [] ref_state (stance_params 0.5 []) True
        = Inr (eng', traj)
    \<and> length traj = 6 \<and> time (traj ! 0) = 0.1 \<and> time (traj ! 4) = 0.5
    \<and> time (last traj) = 0.5)
   \<and> (\<exists>eng' traj.
      stancePreview ref_ops (ref_engine double_tenth) [] ref_state (stance_params 0.5 []) True
        = Inr (eng', traj)
    \<and> length traj = 6 \<and> time (traj ! 4) = double_tenth * 5 \<and> time (last traj) = 0.5)
   \<and> (\<exists>eng' traj.
      stancePreview ref_ops (ref_engine double_tenth) [] ref_state
        (stance_params double_three_tenths []) True = Inr (eng', traj)
    \<and> length traj = 3 \<and> time (traj ! 1) = double_tenth * 2
    \<and> time (last traj) = double_three_tenths)"
proof (intro conjI)
  have "\<exists>eng' traj.
      stancePreview ref_ops (ref_engine 0.1) [] ref_state (stance_params 0.5 []) True = Inr (eng', traj)
    \<and> length traj = 6 \<and> (\<forall>k<5. time (traj ! k) = 0.1 * real (k + 1)) \<and> time (last traj) = 0.5"
    using stancePreview_full_samples[of ref_ops "ref_engine 0.1" "stance_params 0.5 []" "[]" ref_state]
    by simp
  then obtain eng' traj where
    r: "stancePreview ref_ops (ref_engine 0.1) [] ref_state (stance_params 0.5 []) True = Inr (eng', traj)"
    and l: "length traj = 6"
    and k: "\<forall>k<5. time (traj ! k) = 0.1 * real (k + 1)"
    and e: "time (last traj) = 0.5"
    by blast
  have "time (traj ! 0) = 0.1" "time (traj ! 4) = 0.5"
    using k[rule_format, of 0] k[rule_format, of 4] by simp_all
  then show "\<exists>eng' traj.
      stancePreview ref_ops (ref_engine 0.1) [] ref_state (stance_params 0.5 []) True
        = Inr (eng', traj)
    \<and> length traj = 6 \<and> time (traj ! 0) = 0.1 \<and> time (traj ! 4) = 0.5
    \<and> time (last traj) = 0.5"
    using r l e by auto
next
  have pos: "0 < double_tenth" "double_tenth \<le> 0.5"
    by (simp_all add: double_tenth_def)
  have "\<exists>eng' traj.
      stancePreview ref_ops (ref_engine double_tenth) [] ref_state (stance_params 0.5 []) True
        = Inr (eng', traj)
    \<and> length traj = 6 \<and> (\<forall>k<5. time (traj ! k) = double_tenth * real (k + 1))
    \<and> time (last traj) = 0.5"
    using stancePreview_full_samples[of ref_ops "ref_engine double_tenth" "stance_params 0.5 []"
        "[]" ref_state] pos
    by (simp add: double_div_doubles)
  then obtain eng' traj where
    r: "stancePreview ref_ops (ref_engine double_tenth) [] ref_state (stance_params 0.5 []) True
        = Inr (eng', traj)"
    and l: "length traj = 6"
    and k: "\<forall>k<5. time (traj ! k) = double_tenth * real (k + 1)"
    and e: "time (last traj) = 0.5"
    by blast
  have "time (traj ! 4) = double_tenth * 5"
    using k[rule_format, of 4] by simp
  then show "\<exists>eng' traj.
      stancePreview ref_ops (ref_engine double_tenth) [] ref_state (stance_params 0.5 []) True
        = Inr (eng', traj)
    \<and> length traj = 6 \<and> time (traj ! 4) = double_tenth * 5 \<and> time (last traj) = 0.5"
    using r l e by auto
next
  have pos: "0 < double_tenth" "double_tenth \<le> double_three_tenths"
    by (simp_all add: double_tenth_def double_three_tenths_def)
  have "\<exists>eng' traj.
      stancePreview ref_ops (ref_engine double_tenth) [] ref_state
        (stance_params double_three_tenths []) True = Inr (eng', traj)
    \<and> length traj = 3 \<and> (\<forall>k<2. time (traj ! k) = double_tenth * real (k + 1))
    \<and> time (last traj) = double_three_tenths"
    using stancePreview_full_samples[of ref_ops "ref_engine double_tenth"
        "stance_params double_three_tenths []" "[]" ref_state] pos
    by (simp add: double_div_doubles)
  then obtain eng' traj where
    r: "stancePreview ref_ops (ref_engine double_tenth) [] ref_state
          (stance_params double_three_tenths []) True = Inr (eng', traj)"
    and l: "length traj = 3"
    and k: "\<forall>k<2. time (traj ! k) = double_tenth * real (k + 1)"
    and e: "time (last traj) = double_three_tenths"
    by blast
  have "time (traj ! 1) = double_tenth * 2"
    using k[rule_format, of 1] by simp
  then show "\<exists>eng' traj.
      stancePreview ref_ops (ref_engine double_tenth) [] ref_state
        (stance_params double_three_tenths []) True = Inr (eng', traj)
    \<and> length traj = 3 \<and> time (traj ! 1) = double_tenth * 2
    \<and> time (last traj) = double_three_tenths"
    using r l e by auto
qed

section \<open>Sampling of a FLIGHT phase\<close>

text \<open>
  Claim C4. A FLIGHT phase previewed in full mode should follow the sampling policy of
  STANCE with every write to the output trajectory in bounds. The code resizes the
  trajectory to \<open>num_samples\<close> where \<^verbatim>\<open>stancePreview\<close> resizes it to
  \<open>num_samples + 1\<close>, and then writes the samples \<open>0, ..., num_samples\<close>: the write of
  the last, pinned sample is past the end. With a duration of 0.5 and a sample time of
  0.1 the trajectory has 5 elements and the sixth write goes to index 5.
\<close>

theorem flightPreview_full_writes_past_end:
  "flightPreview ref_ops (ref_engine 0.1) [] ref_state (flight_params 0.5) True
   = Inl (IndexOutOfBounds 5 5)"
  using flightPreview_full_overrun[of "ref_engine 0.1" "flight_params 0.5" ref_ops "[]" ref_state]
  by simp

section \<open>Phases that do not exceed the sample time\<close>

text \<open>
  Claim C5. In full mode a phase whose duration does not exceed the sample time is to
  produce no sample. A phase strictly shorter than the sample time is skipped by the
  guard of \<^verbatim>\<open>stancePreview\<close> and \<^verbatim>\<open>flightPreview\<close> (lemma
  \<open>short_phase_untouched\<close>). A phase exactly as long as the sample time is not: the
  guard reads \<^verbatim>\<open>params.duration < sample_time_\<close>, although its comment says a duration
  makes sense when it is bigger than the sample time and \<^verbatim>\<open>multiPhasePreview\<close> tests
  \<^verbatim>\<open>duration > sample_time_\<close> throughout. With duration and sample time both 0.1 a
  STANCE phase yields two samples, while the foothold of a foot swinging in that phase
  is not committed afterwards.
\<close>

theorem equal_duration_phase_is_sampled:
  "duration (stance_params 0.1 [''LF'']) \<le> sample_time (ref_engine 0.1)
   \<and> map_sum id (length \<circ> snd)
        (stancePreview ref_ops (ref_engine 0.1) [] ref_state (stance_params 0.1 [''LF'']) True)
       = Inr 2
   \<and> isSwingFoot (phase (stance_params 0.1 [''LF''])) ''LF''
   \<and> commit_foothold ref_ops (ref_engine 0.1) (stance_params 0.1 [''LF'']) ''LF'' lifted_state
       = Inr lifted_state"
proof -
  from stancePreview_full_run[of ref_ops "ref_engine 0.1" "stance_params 0.1 [''LF'']" "[]"
      ref_state]
  obtain eng' traj where
    "stancePreview ref_ops (ref_engine 0.1) [] ref_state (stance_params 0.1 [''LF'']) True
     = Inr (eng', traj)"
    "length traj = 2"
    by auto
  then show ?thesis by (simp add: commit_foothold_def isSwingFoot_def)
qed

section \<open>The energy of a control sequence\<close>

text \<open>
  Claim C6. With the robot model loaded, \<^verbatim>\<open>multiPhaseEnergy\<close> returns the sum, over
  the phases of the control sequence in order, of what \<open>computeSystemEnergy\<close> gives for
  each STANCE phase at the running state, a FLIGHT phase adding nothing, and the running
  state moves on by exactly one \<open>computeResponse\<close> per phase (this is
  \<open>energy_by_phase\<close>). For a single STANCE phase the result is the energy of that
  phase, for a single FLIGHT phase it is zero.
\<close>

theorem multiPhaseEnergy_stance_only:
  assumes "robot_model eng"
  shows "energy_loop ops (cart_table eng) state control
           = (case energy_by_phase ops (cart_table eng) state (params control) of
                (e, ct', s') \<Rightarrow> Inr (ct', e, s'))
       \<and> multiPhaseEnergy ops eng com_energy state control
           = (case energy_by_phase ops (cart_table eng) state (params control) of
                (e, ct', s') \<Rightarrow> Inr (eng\<lparr>actual_state := state, cart_table := ct'\<rparr>, e, []))
       \<and> (\<forall>p. params control = [p] \<and> type (phase p) = STANCE \<longrightarrow>
             map_sum id (fst \<circ> snd) (multiPhaseEnergy ops eng com_energy state control)
               = Inr (fst (computeSystemEnergy ops (cart_table eng) state (duration p, cop_shift p))))
       \<and> (\<forall>p. params control = [p] \<and> type (phase p) = FLIGHT \<longrightarrow>
             map_sum id (fst \<circ> snd) (multiPhaseEnergy ops eng com_energy state control)
               = Inr vzero)"
  using assms
  by (auto simp: multiPhaseEnergy_def energy_loop_by_phase Let_def split: prod.splits)

theorem multiPhaseEnergy_stance_only_witness:
  "robot_model (ref_engine 0.1)
   \<and> map_sum id (fst \<circ> snd)
       (multiPhaseEnergy ref_ops (ref_engine 0.1) (7, 7, 7) ref_state
          \<lparr>params = [stance_params 0.5 []]\<rparr>) = Inr (0.05, 0, 0)
   \<and> map_sum id (fst \<circ> snd)
       (multiPhaseEnergy ref_ops (ref_engine 0.1) (7, 7, 7) ref_state
          \<lparr>params = [flight_params 0.5]\<rparr>) = Inr (0, 0, 0)
   \<and> map_sum id (fst \<circ> snd)
       (multiPhaseEnergy ref_ops (ref_engine 0.1) (7, 7, 7) ref_state
          \<lparr>params = [stance_params 0.5 [], flight_params 0.2]\<rparr>) = Inr (0.05, 0, 0)"
  using multiPhaseEnergy_stance_only[of "ref_engine 0.1" ref_ops ref_state
           "\<lparr>params = [stance_params 0.5 []]\<rparr>" "(7, 7, 7)"]
        multiPhaseEnergy_stance_only[of "ref_engine 0.1" ref_ops ref_state
           "\<lparr>params = [flight_params 0.5]\<rparr>" "(7, 7, 7)"]
        multiPhaseEnergy_stance_only[of "ref_engine 0.1" ref_ops ref_state
           "\<lparr>params = [stance_params 0.5 [], flight_params 0.2]\<rparr>" "(7, 7, 7)"]
  by (simp add: vzero_def)

section \<open>The guard on the robot model\<close>

text \<open>
  Claim C8. When the robot model has not been loaded, each of \<^verbatim>\<open>multiPhasePreview\<close>,
  \<^verbatim>\<open>multiPhaseEnergy\<close> and \<^verbatim>\<open>readPreviewSequence\<close> does nothing but print the
  error line: the engine and every output argument come back unchanged.
\<close>

theorem uninitialized_model_guard:
  assumes "\<not> robot_model eng"
  shows "multiPhasePreview ops eng trajectory state control full
           = Inr (eng, trajectory, [not_initialized])
       \<and> multiPhaseEnergy ops eng com_energy state control
           = Inr (eng, com_energy, [not_initialized])
       \<and> readPreviewSequence ops eng state control yaml
           = Inr (state, control, [not_initialized])"
  using assms by (simp add: multiPhasePreview_def multiPhaseEnergy_def readPreviewSequence_def)

theorem uninitialized_model_guard_witness:
  "\<not> robot_model ((ref_engine 0.1)\<lparr>robot_model := False\<rparr>)
   \<and> multiPhasePreview ref_ops ((ref_engine 0.1)\<lparr>robot_model := False\<rparr>) [ref_state] ref_state
         \<lparr>params = [stance_params 0.5 []]\<rparr> True
       = Inr ((ref_engine 0.1)\<lparr>robot_model := False\<rparr>, [ref_state], [not_initialized])
   \<and> multiPhaseEnergy ref_ops ((ref_engine 0.1)\<lparr>robot_model := False\<rparr>) (7, 7, 7) ref_state
         \<lparr>params = [stance_params 0.5 []]\<rparr>
       = Inr ((ref_engine 0.1)\<lparr>robot_model := False\<rparr>, (7, 7, 7), [not_initialized])
   \<and> readPreviewSequence ref_ops ((ref_engine 0.1)\<lparr>robot_model := False\<rparr>) ref_state
         \<lparr>params = [stance_params 0.5 []]\<rparr> (yaml_top (Some 0))
       = Inr (ref_state, \<lparr>params = [stance_params 0.5 []]\<rparr>, [not_initialized])"
  using uninitialized_model_guard[of "(ref_engine 0.1)\<lparr>robot_model := False\<rparr>" ref_ops
          "[ref_state]" ref_state "\<lparr>params = [stance_params 0.5 []]\<rparr>" True "(7, 7, 7)"
          "yaml_top (Some 0)"]
  by simp

section \<open>The support region at the start of a phase\<close>




section \<open>The trailing state\<close>

text \<open>
  Claim C3. With the robot model loaded, a well-formed engine and a non-empty control
  sequence: whenever the loop over the phases returns, with the trajectory \<open>body\<close>,
  \<^verbatim>\<open>multiPhasePreview\<close> returns \<open>body\<close> followed by exactly one more state. That
  state is the last state of \<open>body\<close> but for its support region, in which every foot
  the last phase marks as swinging stands at its committed foothold, provided that phase
  lasts longer than the sample time: the CoM position of the last state plus the rotated
  sum of nominal stance offset and commanded shift, with z the terrain height at that
  planar position when terrain data is registered, and otherwise minus the sum of
  pendulum height and nominal stance height, minus the rise of the CoM since the state
  the preview started from. Every other entry of the support region is that of the last
  state of \<open>body\<close>. The loop over the phases does return for every sequence of STANCE
  phases with representable sample counts (a FLIGHT phase can end the call early, see
  C4).
\<close>

theorem trailing_state_committed:
  assumes rm: "robot_model eng" and wf: "well_formed eng" and ne: "params control \<noteq> []"
  shows "(\<forall>eng2 body.
            for_loop 0 (length (params control)) (phase_iteration ops state control full)
              (eng\<lparr>actual_state := state\<rparr>, []) = Inr (eng2, body)
            \<longrightarrow> body \<noteq> []
              \<and> (\<exists>v. multiPhasePreview ops eng trajectory state control full
                        = Inr (eng2, body @ [v], [])
                   \<and> v = (last body)\<lparr>support_region := support_region v\<rparr>
                   \<and> (\<forall>name. name \<notin> set (take (num_feet eng) (feet_names eng)) \<longrightarrow>
                         support_region v name = support_region (last body) name)
                   \<and> (\<forall>name \<in> set (take (num_feet eng) (feet_names eng)).
                         (isSwingFoot (phase (last (params control))) name
                          \<and> sample_time eng < duration (last (params control)) \<longrightarrow>
                            (\<exists>sx sy sz wx wy wz.
                                stance_posture eng name = Some (sx, sy, sz)
                              \<and> vadd (com_pos (last body))
                                  (fromBaseToWorldFrame ops
                                     (sx + fst (getFootShift (phase (last (params control))) name),
                                      sy + snd (getFootShift (phase (last (params control))) name),
                                      sz)
                                     (angular_pos (last body))) = (wx, wy, wz)
                              \<and> support_region v name
                                  = Some (wx, wy,
                                          if isTerrainInformation (terrain eng)
                                          then getTerrainHeight (terrain eng) (wx, wy)
                                          else - (getPendulumHeight ops (cart_table eng2) + sz)
                                               - (Z (com_pos (last body)) - Z (com_pos state)))))
                       \<and> (\<not> (isSwingFoot (phase (last (params control))) name
                               \<and> sample_time eng < duration (last (params control))) \<longrightarrow>
                            support_region v name = support_region (last body) name))))
       \<and> ((\<forall>p \<in> set (params control). stance_phase_ok eng p)
            \<longrightarrow> (\<exists>eng2 body. for_loop 0 (length (params control))
                   (phase_iteration ops state control full)
                   (eng\<lparr>actual_state := state\<rparr>, []) = Inr (eng2, body)))"
proof (intro conjI allI impI)
  fix eng2 body
  assume loop: "for_loop 0 (length (params control)) (phase_iteration ops state control full)
              (eng\<lparr>actual_state := state\<rparr>, []) = Inr (eng2, body)"
  let ?feet = "take (num_feet eng) (feet_names eng)"
  let ?end = "last (params control)"
  let ?U = "updated_support ops eng2 ?end (\<lambda>name. False) (last body) ?feet"
  let ?v = "(last body)\<lparr>support_region := ?U\<rparr>"
  have post: "same_model (eng\<lparr>actual_state := state\<rparr>) eng2 \<and> body \<noteq> []"
    using loop ne phase_loop_post[where n = "length (params control)" and ops = ops
        and state = state and control = control and full = full
        and eng = "eng\<lparr>actual_state := state\<rparr>"]
    by simp
  then show b: "body \<noteq> []" by simp
  have cfg: "num_feet eng2 = num_feet eng" "feet_names eng2 = feet_names eng"
    "stance_posture eng2 = stance_posture eng" "sample_time eng2 = sample_time eng"
    "terrain eng2 = terrain eng" "actual_state eng2 = state"
    using post same_modelD[of "eng\<lparr>actual_state := state\<rparr>" eng2] by simp_all
  have tr: "trailing_state ops eng2 control body = Inr ?v"
    using trailing_state_commit[of eng2 body control ops] wf b ne
    by (simp add: cfg well_formed_def)
  have run: "multiPhasePreview ops eng trajectory state control full
             = Inr (eng2, body @ [?v], [])"
    using rm loop tr by (simp add: multiPhasePreview_def)
  have commit: "\<exists>sx sy sz wx wy wz.
        stance_posture eng name = Some (sx, sy, sz)
      \<and> vadd (com_pos (last body))
          (fromBaseToWorldFrame ops
             (sx + fst (getFootShift (phase ?end) name),
              sy + snd (getFootShift (phase ?end) name), sz)
             (angular_pos (last body))) = (wx, wy, wz)
      \<and> ?U name
          = Some (wx, wy,
                  if isTerrainInformation (terrain eng)
                  then getTerrainHeight (terrain eng) (wx, wy)
                  else - (getPendulumHeight ops (cart_table eng2) + sz)
                       - (Z (com_pos (last body)) - Z (com_pos state)))"
    if n: "name \<in> set ?feet"
      and sw: "isSwingFoot (phase ?end) name" "sample_time eng < duration ?end"
    for name
  proof -
    obtain sx sy sz where sp: "stance_posture eng name = Some (sx, sy, sz)"
      using wf n unfolding well_formed_def by (metis domD prod_cases3 subsetD)
    obtain wx wy wz where w: "vadd (com_pos (last body))
          (fromBaseToWorldFrame ops
             (sx + fst (getFootShift (phase ?end) name),
              sy + snd (getFootShift (phase ?end) name), sz)
             (angular_pos (last body))) = (wx, wy, wz)"
      by (metis prod_cases3)
    have "?U name = Some (foothold_target ops eng2 (last body) (phase ?end) name (sx, sy, sz))"
      using n sw sp by (simp add: updated_support_def cfg)
    then show ?thesis
      using sp w foothold_target_explicit[OF w, of eng2] by (auto simp: cfg)
  qed
  have other: "?U name = support_region (last body) name"
    if "name \<notin> set ?feet" for name
    using that by (simp add: updated_support_def)
  have kept: "?U name = support_region (last body) name"
    if "name \<in> set ?feet"
      "\<not> (isSwingFoot (phase ?end) name \<and> sample_time eng < duration ?end)" for name
    using that by (auto simp: updated_support_def cfg)
  show "\<exists>v. multiPhasePreview ops eng trajectory state control full
                        = Inr (eng2, body @ [v], [])
                   \<and> v = (last body)\<lparr>support_region := support_region v\<rparr>
                   \<and> (\<forall>name. name \<notin> set (take (num_feet eng) (feet_names eng)) \<longrightarrow>
                         support_region v name = support_region (last body) name)
                   \<and> (\<forall>name \<in> set (take (num_feet eng) (feet_names eng)).
                         (isSwingFoot (phase (last (params control))) name
                          \<and> sample_time eng < duration (last (params control)) \<longrightarrow>
                            (\<exists>sx sy sz wx wy wz.
                                stance_posture eng name = Some (sx, sy, sz)
                              \<and> vadd (com_pos (last body))
                                  (fromBaseToWorldFrame ops
                                     (sx + fst (getFootShift (phase (last (params control))) name),
                                      sy + snd (getFootShift (phase (last (params control))) name),
                                      sz)
                                     (angular_pos (last body))) = (wx, wy, wz)
                              \<and> support_region v name
                                  = Some (wx, wy,
                                          if isTerrainInformation (terrain eng)
                                          then getTerrainHeight (terrain eng) (wx, wy)
                                          else - (getPendulumHeight ops (cart_table eng2) + sz)
                                               - (Z (com_pos (last body)) - Z (com_pos state)))))
                       \<and> (\<not> (isSwingFoot (phase (last (params control))) name
                               \<and> sample_time eng < duration (last (params control))) \<longrightarrow>
                            support_region v name = support_region (last body) name))"
    apply (rule exI[of _ ?v])
    using run commit other kept by simp
next
  assume "\<forall>p \<in> set (params control). stance_phase_ok eng p"
  then have ok: "\<forall>p \<in> set (params control). stance_phase_ok (eng\<lparr>actual_state := state\<rparr>) p"
    by (simp add: stance_phase_ok_def)
  have wf': "well_formed (eng\<lparr>actual_state := state\<rparr>)"
    using wf by (simp add: well_formed_def)
  show "\<exists>eng2 body. for_loop 0 (length (params control))
                   (phase_iteration ops state control full)
                   (eng\<lparr>actual_state := state\<rparr>, []) = Inr (eng2, body)"
    using phase_loop_total[OF wf' ok] .
qed


text \<open>
  A summary preview of one STANCE phase of 0.4 s in which LF swings (shift (0.1, 0),
  nominal stance offset (0.3, 0.2, -0.5)), from a state with the CoM at (0.2, 0.1, 0.55)
  moving at (0.1, 0, 0.05) and yaw 0.5: the phase ends with the CoM at (0.24, 0.1, 0.57),
  the pendulum height is 0.55, and the trailing state has LF at (0.54, 0.5, -0.07) on
  flat terrain and at (0.54, 0.5, 0.154) on the sloping terrain; RF stays where it was.
\<close>

theorem trailing_state_committed_witness:
  "robot_model (ref_engine 0.1) \<and> well_formed (ref_engine 0.1)
   \<and> robot_model (terrain_engine 0.1) \<and> well_formed (terrain_engine 0.1)
   \<and> params single_swing_control \<noteq> []
   \<and> map_sum id (map com_pos)
        (returned_trajectory
           (multiPhasePreview height_ops (ref_engine 0.1) [] tilted_state single_swing_control
              False))
       = Inr [(0.24, 0.1, 0.57), (0.24, 0.1, 0.57)]
   \<and> last_support
        (returned_trajectory
           (multiPhasePreview height_ops (ref_engine 0.1) [] tilted_state single_swing_control
              False)) ''LF''
       = Inr (Some (0.54, 0.5, - 0.07))
   \<and> last_support
        (returned_trajectory
           (multiPhasePreview height_ops (ref_engine 0.1) [] tilted_state single_swing_control
              False)) ''RF''
       = Inr (Some (0.3, - 0.2, 0))
   \<and> last_support
        (returned_trajectory
           (multiPhasePreview height_ops (terrain_engine 0.1) [] tilted_state
              single_swing_control False)) ''LF''
       = Inr (Some (0.54, 0.5, 0.154))"
proof -
  let ?c = single_swing_control
  have ne: "params ?c \<noteq> []" by (simp add: single_swing_control_def)
  have gen: "well_formed eng
      \<and> map_sum id (map com_pos)
          (returned_trajectory (multiPhasePreview height_ops eng [] tilted_state ?c False))
         = Inr [(0.24, 0.1, 0.57), (0.24, 0.1, 0.57)]
      \<and> last_support
          (returned_trajectory (multiPhasePreview height_ops eng [] tilted_state ?c False)) ''LF''
         = Inr (Some (0.54, 0.5,
                      if isTerrainInformation (terrain eng)
                      then getTerrainHeight (terrain eng) (0.54, 0.5) else - 0.07))
      \<and> last_support
          (returned_trajectory (multiPhasePreview height_ops eng [] tilted_state ?c False)) ''RF''
         = Inr (Some (0.3, - 0.2, 0))"
    if rm: "robot_model eng" and st: "sample_time eng = 0.1"
      and nf: "num_feet eng = 2" "feet_names eng = [''LF'', ''RF'']"
      and sp: "stance_posture eng = [''LF'' \<mapsto> (0.3, 0.2, - 0.5), ''RF'' \<mapsto> (0.3, - 0.2, - 0.5)]"
    for eng :: "(ref_cart_table, ref_generator) PreviewLocomotion"
  proof -
    let ?feet = "take (num_feet eng) (feet_names eng)"
    let ?end = "last (params ?c)"
    have wf: "well_formed eng" by (simp add: well_formed_def st nf sp)
    have ok: "\<forall>p \<in> set (params ?c). stance_phase_ok eng p"
      by (simp add: stance_phase_ok_def single_swing_control_def st sp)
    note th = trailing_state_committed[OF rm wf ne, of height_ops tilted_state False "[]"]
    from th ok obtain eng2 body where
      loop: "for_loop 0 (length (params ?c)) (phase_iteration height_ops tilted_state ?c False)
               (eng\<lparr>actual_state := tilted_state\<rparr>, []) = Inr (eng2, body)"
      by blast
    from loop have body: "map com_pos body = [(0.24, 0.1, 0.57)]"
      "angular_pos (last body) = (0, 0, 0.5)"
      "support_region (last body) ''RF'' = Some (0.3, - 0.2, 0)"
      "getPendulumHeight height_ops (cart_table eng2) = 0.55"
      by (auto simp: single_swing_control_def phase_iteration_def phase_start_state_def
            stancePreview_def sample_count_def stance_sample_def sample_offset_def write_at_def
            resize_def succ_u32_def for_loop_step for_loop_done Let_def st)
    from th[THEN conjunct1, rule_format, OF loop] obtain v where
      run: "multiPhasePreview height_ops eng [] tilted_state ?c False
            = Inr (eng2, body @ [v], [])"
      and v: "v = (last body)\<lparr>support_region := support_region v\<rparr>"
      and feet: "\<forall>name \<in> set ?feet.
           (isSwingFoot (phase ?end) name \<and> sample_time eng < duration ?end \<longrightarrow>
              (\<exists>sx sy sz wx wy wz.
                  stance_posture eng name = Some (sx, sy, sz)
                \<and> vadd (com_pos (last body))
                    (fromBaseToWorldFrame height_ops
                       (sx + fst (getFootShift (phase ?end) name),
                        sy + snd (getFootShift (phase ?end) name), sz)
                       (angular_pos (last body))) = (wx, wy, wz)
                \<and> support_region v name
                    = Some (wx, wy,
                            if isTerrainInformation (terrain eng)
                            then getTerrainHeight (terrain eng) (wx, wy)
                            else - (getPendulumHeight height_ops (cart_table eng2) + sz)
                                 - (Z (com_pos (last body)) - Z (com_pos tilted_state)))))
         \<and> (\<not> (isSwingFoot (phase ?end) name \<and> sample_time eng < duration ?end) \<longrightarrow>
              support_region v name = support_region (last body) name)"
      by blast
    have lf_foot: "''LF'' \<in> set ?feet" and rf_foot: "''RF'' \<in> set ?feet"
      by (simp_all add: nf)
    have lf_swings: "isSwingFoot (phase ?end) ''LF'' \<and> sample_time eng < duration ?end"
      and rf_stands: "\<not> (isSwingFoot (phase ?end) ''RF'' \<and> sample_time eng < duration ?end)"
      by (simp_all add: isSwingFoot_def single_swing_control_def st)
    have shift: "getFootShift (phase ?end) ''LF'' = (0.1, 0)"
      by (simp add: getFootShift_def single_swing_control_def)
    from body(1) have lb: "com_pos (last body) = (0.24, 0.1, 0.57)"
      by (cases body) auto
    have cv: "com_pos v = (0.24, 0.1, 0.57)"
      by (subst v) (simp add: lb)
    have r: "support_region v ''RF'' = Some (0.3, - 0.2, 0)"
      using bspec[OF feet rf_foot, THEN conjunct2, rule_format, OF rf_stands] body(3) by simp
    have l: "support_region v ''LF''
             = Some (0.54, 0.5,
                     if isTerrainInformation (terrain eng)
                     then getTerrainHeight (terrain eng) (0.54, 0.5) else - 0.07)"
    proof -
      from bspec[OF feet lf_foot, THEN conjunct1, rule_format, OF lf_swings]
      obtain sx sy sz wx wy wz :: real
        where a: "stance_posture eng ''LF'' = Some (sx, sy, sz)"
          and b: "vadd (com_pos (last body))
                    (fromBaseToWorldFrame height_ops
                       (sx + fst (getFootShift (phase ?end) ''LF''),
                        sy + snd (getFootShift (phase ?end) ''LF''), sz)
                       (angular_pos (last body))) = (wx, wy, wz)"
          and c: "support_region v ''LF''
                    = Some (wx, wy,
                            if isTerrainInformation (terrain eng)
                            then getTerrainHeight (terrain eng) (wx, wy)
                            else - (getPendulumHeight height_ops (cart_table eng2) + sz)
                                 - (Z (com_pos (last body)) - Z (com_pos tilted_state)))"
        by blast
      from a have s: "sx = 3 / 10" "sy = 1 / 5" "sz = - (1 / 2)"
        by (simp_all add: sp)
      from b have w: "wx = 0.54" "wy = 0.5"
        unfolding s shift lb body(2) by simp_all
      from c show ?thesis
        unfolding s w lb body(4) by simp
    qed
    show ?thesis
      using wf run body(1) cv l r
      by (simp add: returned_trajectory_def last_support_def)
  qed
  show ?thesis
    using ne gen[of "ref_engine 0.1"] gen[of "terrain_engine 0.1"] by simp
qed

section \<open>The accesses of the trailing step\<close>

text \<open>
  Claim C10. With the robot model loaded, the trajectory accumulated by
  \<^verbatim>\<open>multiPhasePreview\<close> is non-empty after every iteration of the loop over the
  phases (the sanity action pushes the initial state when nothing was sampled), so for
  a non-empty \<^verbatim>\<open>control.params\<close> neither \<^verbatim>\<open>trajectory.back()\<close> nor
  \<^verbatim>\<open>control.params.back()\<close> is ever taken of an empty vector; for an empty
  \<^verbatim>\<open>control.params\<close> both vectors are empty when the trailing step takes their last
  element.
\<close>

theorem trailing_accesses_in_bounds:
  assumes "robot_model eng"
  shows "(\<forall>k acc eng' tr'. phase_iteration ops state control full k acc = Inr (eng', tr')
            \<longrightarrow> tr' \<noteq> [])
       \<and> (params control \<noteq> [] \<longrightarrow>
            multiPhasePreview ops eng trajectory state control full \<noteq> Inl BackOfEmptyTrajectory
          \<and> multiPhasePreview ops eng trajectory state control full \<noteq> Inl BackOfEmptyParams)
       \<and> (params control = [] \<longrightarrow>
            multiPhasePreview ops eng trajectory state control full = Inl BackOfEmptyTrajectory
          \<and> vector_back BackOfEmptyParams (params control) = Inl BackOfEmptyParams)"
proof (intro conjI allI impI)
  fix k acc eng' tr'
  assume "phase_iteration ops state control full k acc = Inr (eng', tr')"
  then show "tr' \<noteq> []" by (rule phase_iteration_nonempty)
next
  assume ne: "params control \<noteq> []"
  have "no_back_error e" if r: "multiPhasePreview ops eng trajectory state control full = Inl e" for e
  proof (cases "for_loop 0 (length (params control)) (phase_iteration ops state control full)
                  (eng\<lparr>actual_state := state\<rparr>, [])")
    case (Inl e')
    then show ?thesis
      using r assms phase_loop_post[where n = "length (params control)" and ops = ops
          and state = state and control = control and full = full
          and eng = "eng\<lparr>actual_state := state\<rparr>"]
      by (simp add: multiPhasePreview_def)
  next
    case (Inr res)
    obtain eng2 tr where res: "res = (eng2, tr)" by (cases res)
    have "tr \<noteq> []"
      using Inr res ne phase_loop_post[where n = "length (params control)" and ops = ops
          and state = state and control = control and full = full
          and eng = "eng\<lparr>actual_state := state\<rparr>"]
      by simp
    then show ?thesis
      using r assms Inr res ne trailing_state_error[of ops eng2 control tr e]
      by (simp add: multiPhasePreview_def split: sum.splits)
  qed
  then show "multiPhasePreview ops eng trajectory state control full \<noteq> Inl BackOfEmptyTrajectory"
    and "multiPhasePreview ops eng trajectory state control full \<noteq> Inl BackOfEmptyParams"
    by (auto simp: no_back_error_def)
next
  assume "params control = []"
  then show "multiPhasePreview ops eng trajectory state control full = Inl BackOfEmptyTrajectory"
    and "vector_back BackOfEmptyParams (params control) = Inl BackOfEmptyParams"
    using assms
    by (simp_all add: multiPhasePreview_def for_loop_done trailing_state_def vector_back_def)
qed

theorem trailing_accesses_in_bounds_witness:
  "robot_model (ref_engine 0.1)
   \<and> params \<lparr>params = [stance_params 0.5 []]\<rparr> \<noteq> []
   \<and> multiPhasePreview ref_ops (ref_engine 0.1) [] ref_state
         \<lparr>params = [stance_params 0.5 []]\<rparr> True \<noteq> Inl BackOfEmptyTrajectory
   \<and> multiPhasePreview ref_ops (ref_engine 0.1) [] ref_state
         \<lparr>params = [stance_params 0.5 []]\<rparr> True \<noteq> Inl BackOfEmptyParams
   \<and> multiPhasePreview ref_ops (ref_engine 0.1) [] ref_state \<lparr>params = []\<rparr> True
       = Inl BackOfEmptyTrajectory"
  using trailing_accesses_in_bounds[of "ref_engine 0.1" ref_ops ref_state
          "\<lparr>params = [stance_params 0.5 []]\<rparr>" True "[]"]
        trailing_accesses_in_bounds[of "ref_engine 0.1" ref_ops ref_state
          "\<lparr>params = []\<rparr>" True "[]"]
  by simp

section \<open>Determinism of the preview\<close>

text \<open>
  Claim C9. With the robot model loaded, the trajectory \<^verbatim>\<open>multiPhasePreview\<close> returns
  (or the undefined behaviour it ends in) is a function of the initial state, the
  control sequence, the mode and the engine as initialised: it depends neither on what
  an earlier call left in the per-call context (the actual state, the phase state, the
  swing parameters and the spline generators, all of which are written before they are
  read) nor on the previous contents of the output trajectory, which is cleared. So two
  calls with the same inputs on identically initialised engines return the same
  trajectory, whatever was previewed before. The cache of the cart-table model counts
  as part of the engine as initialised.
\<close>

theorem multiPhasePreview_deterministic:
  assumes "robot_model eng"
  shows "map_sum id (fst \<circ> snd)
           (multiPhasePreview ops
              (eng\<lparr>actual_state := a, phase_state := p, swing_params := sp,
                   feet_spline_generator := g\<rparr>) t1 state control full)
         = map_sum id (fst \<circ> snd) (multiPhasePreview ops eng t2 state control full)"
proof -
  let ?e1 = "eng\<lparr>actual_state := state\<rparr>"
  let ?e2 = "(eng\<lparr>actual_state := a, phase_state := p, swing_params := sp,
                   feet_spline_generator := g\<rparr>)\<lparr>actual_state := state\<rparr>"
  have sb: "same_but_swing ?e1 ?e2" by (simp add: same_but_swing_def)
  have r: "rel_sum (=) (rel_prod same_but_swing (=))
             (for_loop 0 (length (params control)) (phase_iteration ops state control full)
                (?e1, []))
             (for_loop 0 (length (params control)) (phase_iteration ops state control full)
                (?e2, []))"
    using phase_loop_rel[OF sb] .
  show ?thesis
  proof (cases "for_loop 0 (length (params control)) (phase_iteration ops state control full)
                  (?e1, [])")
    case (Inl e)
    then have "for_loop 0 (length (params control)) (phase_iteration ops state control full)
                 (?e2, []) = Inl e"
      using r by (auto elim: rel_sum.cases)
    then show ?thesis using Inl assms by (simp add: multiPhasePreview_def)
  next
    case (Inr res1)
    obtain ea tr where res1: "res1 = (ea, tr)" by (cases res1)
    from r Inr res1 obtain eb where
      l2: "for_loop 0 (length (params control)) (phase_iteration ops state control full)
             (?e2, []) = Inr (eb, tr)"
      and sab: "same_but_swing ea eb"
      by (auto elim!: rel_sum.cases)
    have "trailing_state ops eb control tr = trailing_state ops ea control tr"
      using trailing_state_same[OF sab] .
    then show ?thesis
      using Inr res1 l2 assms by (simp add: multiPhasePreview_def split: sum.splits)
  qed
qed

theorem multiPhasePreview_deterministic_witness:
  "robot_model (ref_engine 0.1)
   \<and> map_sum id (fst \<circ> snd)
        (multiPhasePreview ref_ops
           ((ref_engine 0.1)\<lparr>actual_state := lifted_state, phase_state := ref_state,
              swing_params := \<lparr>swing_duration = 1, swing_feet_shift = [''RF'' \<mapsto> (0, 0, 0)]\<rparr>,
              feet_spline_generator := [''RF'' \<mapsto> (0, (0, 0, 0), (1, 1, 1), (1, 1))]\<rparr>)
           [lifted_state] ref_state (two_phase_control 0.4) True)
     = map_sum id (fst \<circ> snd)
        (multiPhasePreview ref_ops (ref_engine 0.1) [] ref_state (two_phase_control 0.4) True)"
  using multiPhasePreview_deterministic[where eng = "ref_engine 0.1" and ops = ref_ops
          and a = lifted_state and p = ref_state
          and sp = "\<lparr>swing_duration = 1, swing_feet_shift = [''RF'' \<mapsto> (0, 0, 0)]\<rparr>"
          and g = "[''RF'' \<mapsto> (0, (0, 0, 0), (1, 1, 1), (1, 1))]" and ?t1.0 = "[lifted_state]"
          and state = ref_state and control = "two_phase_control 0.4" and full = True
          and ?t2.0 = "[]"]
  by simp

section \<open>Missing keys of a preview sequence\<close>

text \<open>
  Claim C7, as amended. With the robot model loaded, when a required key is absent the
  read stops at that key and prints one error line; what was parsed before keeps its
  parsed value and nothing else is changed: a missing \<^verbatim>\<open>com_pos\<close> leaves state and
  control as they were, a missing \<^verbatim>\<open>com_vel\<close>, \<^verbatim>\<open>cop\<close> or \<^verbatim>\<open>number_phase\<close> leaves
  the state fields read so far set and the control as it was, and a phase \<open>k\<close> that
  lacks its \<^verbatim>\<open>duration\<close> (or, for a STANCE phase, its \<^verbatim>\<open>head_acc\<close>) leaves the
  phases before \<open>k\<close> fully read, phase \<open>k\<close> with the fields read before the missing
  key, and the later phases as the resize left them. The function returns
  \<^verbatim>\<open>void\<close>: no failure indicator goes back to the caller.
\<close>

theorem missing_key_aborts_read:
  assumes rm: "robot_model eng"
  shows "(read_Vector3d yaml ''com_pos'' state_ns = None \<longrightarrow>
            (\<exists>msg. readPreviewSequence ops eng state control yaml
                    = Inr (state, control, [msg])))
       \<and> (\<forall>p. read_Vector3d yaml ''com_pos'' state_ns = Some p
              \<and> read_Vector3d yaml ''com_vel'' state_ns = None \<longrightarrow>
            (\<exists>msg. readPreviewSequence ops eng state control yaml
                    = Inr (state\<lparr>com_pos := p\<rparr>, control, [msg])))
       \<and> (\<forall>p v. read_Vector3d yaml ''com_pos'' state_ns = Some p
              \<and> read_Vector3d yaml ''com_vel'' state_ns = Some v
              \<and> read_Vector3d yaml ''cop'' state_ns = None \<longrightarrow>
            (\<exists>msg. readPreviewSequence ops eng state control yaml
                    = Inr (state\<lparr>com_pos := p, com_vel := v\<rparr>, control, [msg])))
       \<and> (\<forall>p v c. read_Vector3d yaml ''com_pos'' state_ns = Some p
              \<and> read_Vector3d yaml ''com_vel'' state_ns = Some v
              \<and> read_Vector3d yaml ''cop'' state_ns = Some c
              \<and> read_int yaml ''number_phase'' control_ns = None \<longrightarrow>
            (\<exists>msg. readPreviewSequence ops eng state control yaml
                    = Inr (state\<lparr>com_pos := p, com_vel := v, cop := c\<rparr>, control, [msg])))
       \<and> (\<forall>p v c n k pk msg.
              read_Vector3d yaml ''com_pos'' state_ns = Some p
              \<and> read_Vector3d yaml ''com_vel'' state_ns = Some v
              \<and> read_Vector3d yaml ''cop'' state_ns = Some c
              \<and> read_int yaml ''number_phase'' control_ns = Some n
              \<and> k < nat n
              \<and> (\<forall>j<k. \<exists>q. read_phase yaml (feet_names eng) j
                               (resize (nat n) (default_params ops) (params control) ! j)
                             = Inr q)
              \<and> read_phase yaml (feet_names eng) k
                   (resize (nat n) (default_params ops) (params control) ! k) = Inl (pk, msg)
              \<longrightarrow>
            (\<exists>control'.
                readPreviewSequence ops eng state control yaml
                  = Inr (state\<lparr>com_pos := p, com_vel := v, cop := c\<rparr>, control', [msg])
              \<and> length (params control') = nat n
              \<and> (\<forall>j<k. read_phase yaml (feet_names eng) j
                           (resize (nat n) (default_params ops) (params control) ! j)
                         = Inr (params control' ! j))
              \<and> params control' ! k = pk
              \<and> (\<forall>j. k < j \<and> j < nat n \<longrightarrow>
                     params control' ! j
                     = resize (nat n) (default_params ops) (params control) ! j)))
       \<and> (\<forall>names k q. read_double yaml ''duration'' (phase_ns k) = None \<longrightarrow>
            (\<exists>msg. read_phase yaml names k q = Inl (q, msg)))
       \<and> (\<forall>names k q d c.
              read_double yaml ''duration'' (phase_ns k) = Some d
              \<and> read_Vector3d yaml ''cop_shift'' (phase_ns k) = Some c
              \<and> read_double yaml ''head_acc'' (phase_ns k) = None \<longrightarrow>
            (\<exists>msg. read_phase yaml names k q
                    = Inl (q\<lparr>duration := d, cop_shift := c,
                              phase := setTypeOfPhase (phase q) STANCE\<rparr>, msg)))"
proof (intro conjI allI impI)
  fix p v c n k pk msg
  assume a: "read_Vector3d yaml ''com_pos'' state_ns = Some p
              \<and> read_Vector3d yaml ''com_vel'' state_ns = Some v
              \<and> read_Vector3d yaml ''cop'' state_ns = Some c
              \<and> read_int yaml ''number_phase'' control_ns = Some n
              \<and> k < nat n
              \<and> (\<forall>j<k. \<exists>q. read_phase yaml (feet_names eng) j
                               (resize (nat n) (default_params ops) (params control) ! j)
                             = Inr q)
              \<and> read_phase yaml (feet_names eng) k
                   (resize (nat n) (default_params ops) (params control) ! k) = Inl (pk, msg)"
  then have n0: "\<not> n < 0" by auto
  from a read_phases_abort[of k "nat n" yaml "feet_names eng" "default_params ops" control pk msg]
  obtain control' where
    l: "for_loop 0 (nat n) (read_phase_step yaml (feet_names eng))
          (control\<lparr>params := resize (nat n) (default_params ops) (params control)\<rparr>)
        = Inl (control', msg)"
    and rest: "length (params control') = nat n
         \<and> (\<forall>j<k. read_phase yaml (feet_names eng) j
                     (resize (nat n) (default_params ops) (params control) ! j)
                   = Inr (params control' ! j))
         \<and> params control' ! k = pk
         \<and> (\<forall>j. k < j \<and> j < nat n \<longrightarrow>
               params control' ! j = resize (nat n) (default_params ops) (params control) ! j)"
    by blast
  have "readPreviewSequence ops eng state control yaml
        = Inr (state\<lparr>com_pos := p, com_vel := v, cop := c\<rparr>, control', [msg])"
    using rm a n0 l by (simp add: readPreviewSequence_def read_phases_def Let_def)
  then show "\<exists>control'.
                readPreviewSequence ops eng state control yaml
                  = Inr (state\<lparr>com_pos := p, com_vel := v, cop := c\<rparr>, control', [msg])
              \<and> length (params control') = nat n
              \<and> (\<forall>j<k. read_phase yaml (feet_names eng) j
                           (resize (nat n) (default_params ops) (params control) ! j)
                         = Inr (params control' ! j))
              \<and> params control' ! k = pk
              \<and> (\<forall>j. k < j \<and> j < nat n \<longrightarrow>
                     params control' ! j
                     = resize (nat n) (default_params ops) (params control) ! j)"
    using rest by blast
qed (insert rm, auto simp: readPreviewSequence_def read_phase_def Let_def setTypeOfPhase_def)

theorem missing_key_aborts_read_witness:
  "robot_model (ref_engine 0.1)
   \<and> read_double yaml_two_phases ''head_acc'' (phase_ns 1) = None
   \<and> (\<exists>control' msg.
         readPreviewSequence ref_ops (ref_engine 0.1) ref_state \<lparr>params = []\<rparr> yaml_two_phases
           = Inr (ref_state\<lparr>com_pos := (0, 0, 0.6), com_vel := (0.2, 0, 0), cop := (0.01, 0, 0)\<rparr>,
                  control', [msg])
       \<and> length (params control') = 2
       \<and> duration (params control' ! 0) = 0.4
       \<and> head_acc (params control' ! 0) = 0
       \<and> isSwingFoot (phase (params control' ! 0)) ''LF''
       \<and> duration (params control' ! 1) = 0.3
       \<and> cop_shift (params control' ! 1) = (0.03, 0, 0)
       \<and> type (phase (params control' ! 1)) = STANCE)"
proof -
  let ?d = "flight_params 0"
  let ?q0 = "fold (read_foot_shift yaml_two_phases 0) [''LF'', ''RF'']
               (?d\<lparr>duration := 0.4, cop_shift := (0.02, 0, 0),
                    phase := setTypeOfPhase (phase ?d) STANCE, head_acc := 0\<rparr>)"
  let ?p1 = "?d\<lparr>duration := 0.3, cop_shift := (0.03, 0, 0),
                  phase := setTypeOfPhase (phase ?d) STANCE\<rparr>"
  let ?msg = "''Error: the head_acc of phase_'' @ to_string 1 @ '' was not found''"
  have rm: "robot_model (ref_engine 0.1)" by simp
  have rs: "resize (nat 2) (default_params ref_ops) (params \<lparr>params = []\<rparr>) ! 0 = ?d"
    "resize (nat 2) (default_params ref_ops) (params \<lparr>params = []\<rparr>) ! 1 = ?d"
    by (simp_all add: resize_def numeral_2_eq_2)
  have r0: "read_phase yaml_two_phases (feet_names (ref_engine 0.1)) 0 ?d = Inr ?q0"
    by (simp add: read_phase_def yaml_two_phases_def setTypeOfPhase_def Let_def)
  have r1: "read_phase yaml_two_phases (feet_names (ref_engine 0.1)) 1 ?d = Inl (?p1, ?msg)"
    by (simp add: read_phase_def yaml_two_phases_def setTypeOfPhase_def Let_def)
  have keys: "read_Vector3d yaml_two_phases ''com_pos'' state_ns = Some (0, 0, 0.6)"
    "read_Vector3d yaml_two_phases ''com_vel'' state_ns = Some (0.2, 0, 0)"
    "read_Vector3d yaml_two_phases ''cop'' state_ns = Some (0.01, 0, 0)"
    "read_int yaml_two_phases ''number_phase'' control_ns = Some 2"
    "read_double yaml_two_phases ''head_acc'' (phase_ns 1) = None"
    by (simp_all add: yaml_two_phases_def state_ns_def control_ns_def)
  have before: "\<forall>j<1. \<exists>q. read_phase yaml_two_phases (feet_names (ref_engine 0.1)) j
                  (resize (nat 2) (default_params ref_ops) (params \<lparr>params = []\<rparr>) ! j) = Inr q"
    using r0 rs(1) by simp
  note th = missing_key_aborts_read[OF rm, of yaml_two_phases ref_ops ref_state
      "\<lparr>params = []\<rparr>"]
  note phases = th[THEN conjunct2, THEN conjunct2, THEN conjunct2, THEN conjunct2,
      THEN conjunct1, rule_format, of "(0, 0, 0.6)" "(0.2, 0, 0)" "(0.01, 0, 0)" 2 1 ?p1 ?msg]
  have "\<exists>control'.
          readPreviewSequence ref_ops (ref_engine 0.1) ref_state \<lparr>params = []\<rparr> yaml_two_phases
            = Inr (ref_state\<lparr>com_pos := (0, 0, 0.6), com_vel := (0.2, 0, 0),
                     cop := (0.01, 0, 0)\<rparr>, control', [?msg])
        \<and> length (params control') = nat 2
        \<and> (\<forall>j<1. read_phase yaml_two_phases (feet_names (ref_engine 0.1)) j
                     (resize (nat 2) (default_params ref_ops) (params \<lparr>params = []\<rparr>) ! j)
                   = Inr (params control' ! j))
        \<and> params control' ! 1 = ?p1
        \<and> (\<forall>j. 1 < j \<and> j < nat 2 \<longrightarrow>
               params control' ! j
               = resize (nat 2) (default_params ref_ops) (params \<lparr>params = []\<rparr>) ! j)"
    by (rule phases) (use keys before r1 rs in simp)
  then obtain control' where
    res: "readPreviewSequence ref_ops (ref_engine 0.1) ref_state \<lparr>params = []\<rparr> yaml_two_phases
            = Inr (ref_state\<lparr>com_pos := (0, 0, 0.6), com_vel := (0.2, 0, 0),
                     cop := (0.01, 0, 0)\<rparr>, control', [?msg])"
    and len: "length (params control') = nat 2"
    and p0: "\<forall>j<1. read_phase yaml_two_phases (feet_names (ref_engine 0.1)) j
                     (resize (nat 2) (default_params ref_ops) (params \<lparr>params = []\<rparr>) ! j)
                   = Inr (params control' ! j)"
    and p1: "params control' ! 1 = ?p1"
    by blast
  have q0: "params control' ! 0 = ?q0" using p0 r0 rs(1) by simp
  have "duration (params control' ! 0) = 0.4" "head_acc (params control' ! 0) = 0"
    "isSwingFoot (phase (params control' ! 0)) ''LF''"
    unfolding q0
    by (simp_all add: read_foot_shift_def yaml_two_phases_def setTypeOfPhase_def
          setSwingFoot_def setFootShift_def isSwingFoot_def)
  moreover have "duration (params control' ! 1) = 0.3"
    "cop_shift (params control' ! 1) = (0.03, 0, 0)"
    "type (phase (params control' ! 1)) = STANCE"
    unfolding p1 by (simp_all add: setTypeOfPhase_def)
  ultimately show ?thesis using rm keys(5) res len by auto
qed

text \<open>
  The claim as stated has a failure indicator reported to the caller. A file that lacks
  \<^verbatim>\<open>number_phase\<close> and a complete file that announces no phase hand the same state
  and the same control back to the caller: the failure shows in the printed line only.
\<close>

theorem no_failure_indicator_counterexample:
  "robot_model (ref_engine 0.1)
   \<and> read_int (yaml_top None) ''number_phase'' control_ns = None
   \<and> read_int (yaml_top (Some 0)) ''number_phase'' control_ns = Some 0
   \<and> returned_to_caller
        (readPreviewSequence ref_ops (ref_engine 0.1) ref_state \<lparr>params = []\<rparr> (yaml_top None))
     = returned_to_caller
        (readPreviewSequence ref_ops (ref_engine 0.1) ref_state \<lparr>params = []\<rparr>
           (yaml_top (Some 0)))"
  by (simp add: readPreviewSequence_def read_phases_def yaml_top_def returned_to_caller_def
        state_ns_def control_ns_def Let_def resize_def for_loop_done)


end
